theory Spec2Isabelle
  imports Complex_Main "HOL-Library.Sublist" "HOL-Library.Monad_Syntax"
begin

section \<open>Python strings\<close>

text \<open>
  Python strings are modelled as \<^typ>\<open>string\<close>.  The three string operations the
  synchroniser relies on are the substring test \<^verbatim>\<open>sub in s\<close>, \<^verbatim>\<open>s.replace(old, new)\<close>
  and \<^verbatim>\<open>str(n)\<close> on an integer.
\<close>

primrec startswith :: "string \<Rightarrow> string \<Rightarrow> bool" where
  "startswith [] p = (p = [])"
| "startswith (c # cs) p = (case p of [] \<Rightarrow> True | d # ds \<Rightarrow> c = d \<and> startswith cs ds)"

text \<open>\<^verbatim>\<open>sub in s\<close>: some suffix of \<open>s\<close> starts with \<open>sub\<close>.\<close>

primrec py_in :: "string \<Rightarrow> string \<Rightarrow> bool" where
  "py_in sub [] = (sub = [])"
| "py_in sub (c # cs) = (startswith (c # cs) sub \<or> py_in sub cs)"

text \<open>
  \<^verbatim>\<open>s.replace(old, new)\<close> for a non-empty pattern: a left-to-right scan that replaces
  every non-overlapping occurrence.  The counter \<open>k\<close> is the number of characters
  of a matched occurrence still to be skipped.  (The sources only pass the
  non-empty patterns \<^verbatim>\<open>" "\<close>, \<^verbatim>\<open>"/"\<close> and \<^verbatim>\<open>"+00:00"\<close>.)
\<close>

primrec replace_scan :: "string \<Rightarrow> string \<Rightarrow> nat \<Rightarrow> string \<Rightarrow> string" where
  "replace_scan old new k [] = []"
| "replace_scan old new k (c # cs) =
     (case k of
        Suc j \<Rightarrow> replace_scan old new j cs
      | 0 \<Rightarrow> if old \<noteq> [] \<and> startswith (c # cs) old
             then new @ replace_scan old new (length old - 1) cs
             else c # replace_scan old new 0 cs)"

definition py_replace :: "string \<Rightarrow> string \<Rightarrow> string \<Rightarrow> string" where
  "py_replace old new s = replace_scan old new 0 s"

fun digits :: "nat \<Rightarrow> string" where
  "digits n = (if n < 10 then [char_of (48 + n)]
               else digits (n div 10) @ [char_of (48 + n mod 10)])"

declare digits.simps [simp del]

text \<open>\<^verbatim>\<open>str(n)\<close> for a Python integer.\<close>

definition py_str :: "int \<Rightarrow> string" where
  "py_str n = (if n < 0 then CHR ''-'' # digits (nat (- n)) else digits (nat n))"

text \<open>\<^verbatim>\<open>sep.join(xs)\<close>.\<close>

fun py_join :: "string \<Rightarrow> string list \<Rightarrow> string" where
  "py_join sep [] = []"
| "py_join sep [x] = x"
| "py_join sep (x # y # ys) = x @ sep @ py_join sep (y # ys)"

definition newline :: string where
  "newline = [CHR 0x0A]"

section \<open>Configuration (\<^verbatim>\<open>config.py\<close>)\<close>

text \<open>
  \<^verbatim>\<open>os.getenv\<close> yields a string or \<^verbatim>\<open>None\<close>; the target folder has a default and is
  always a string.
\<close>

record SyncConfig =
  strava_client_id :: "string option"
  strava_refresh_token :: "string option"
  strava_client_secret :: "string option"
  nextcloud_url :: "string option"
  nextcloud_username :: "string option"
  nextcloud_password :: "string option"
  nextcloud_target_folder :: string
  sync_interval_seconds :: int

text \<open>Python truthiness of a value that is a string or \<^verbatim>\<open>None\<close>.\<close>

definition truthy :: "string option \<Rightarrow> bool" where
  "truthy v = (case v of None \<Rightarrow> False | Some s \<Rightarrow> s \<noteq> [])"

text \<open>\<^verbatim>\<open>all([...])\<close> over the three Strava credentials.\<close>

definition strava_ready :: "SyncConfig \<Rightarrow> bool" where
  "strava_ready cfg =
     list_all truthy [strava_client_id cfg, strava_refresh_token cfg, strava_client_secret cfg]"

section \<open>Activity summaries and the delta (\<^verbatim>\<open>syncer.py\<close>, line 64)\<close>

text \<open>
  One entry of \<^verbatim>\<open>get_activities_list\<close>: the list
  \<^verbatim>\<open>[name, id, start_date, type]\<close>.
\<close>

record summary =
  a_name :: string
  a_id :: int
  a_start_date :: string
  a_type :: string

text \<open>
  The comprehension
  \<^verbatim>\<open>[a for a in activities_list if str(a[1]) not in self.synced_ids]\<close>
  run as the loop it abbreviates: the result list starts empty and every
  activity that passes the test is appended.
\<close>

definition new_activities :: "string set \<Rightarrow> summary list \<Rightarrow> summary list" where
  "new_activities synced activities_list =
     fold (\<lambda>a acc. if py_str (a_id a) \<notin> synced then acc @ [a] else acc) activities_list []"

section \<open>The Strava client (\<^verbatim>\<open>strava2gpx/client.py\<close>)\<close>

text \<open>
  The detail of one activity as \<^verbatim>\<open>get_strava_activity\<close> returns it.  The keys
  \<^verbatim>\<open>device_watts\<close>, \<^verbatim>\<open>average_cadence\<close> and \<^verbatim>\<open>average_temp\<close> may be absent
  (\<open>None\<close>); the others are present in every detailed activity.
\<close>

record activity =
  act_name :: string
  act_id :: int
  act_start_date :: string
  act_type :: string
  act_sport_type :: string
  act_device_watts :: "bool option"
  act_has_heartrate :: bool
  act_average_cadence :: "real option"
  act_average_temp :: "real option"

text \<open>The dictionary \<^verbatim>\<open>self.streams\<close>: one 0/1 entry per stream name.\<close>

record stream_flags =
  st_latlng :: nat
  st_altitude :: nat
  st_heartrate :: nat
  st_cadence :: nat
  st_watts :: nat
  st_temp :: nat

text \<open>
  \<^verbatim>\<open>detect_activity_streams\<close> overwrites the four optional entries of
  \<^verbatim>\<open>self.streams\<close> from the activity; \<^verbatim>\<open>latlng\<close> and \<^verbatim>\<open>altitude\<close> keep their initial
  value 1.  \<^verbatim>\<open>write_to_gpx\<close> calls it before it reads any entry, so the entries
  it reads depend on the current activity only.
\<close>

definition detect_activity_streams :: "activity \<Rightarrow> stream_flags" where
  "detect_activity_streams activity =
     \<lparr> st_latlng = 1, st_altitude = 1,
       st_heartrate = (if act_has_heartrate activity then 1 else 0),
       st_cadence = (if act_average_cadence activity \<noteq> None then 1 else 0),
       st_watts = (if act_device_watts activity = Some True then 1 else 0),
       st_temp = (if act_average_temp activity \<noteq> None then 1 else 0) \<rparr>"

text \<open>
  One stream of the response of \<^verbatim>\<open>get_data_stream\<close> (\<^verbatim>\<open>key_by_type=true\<close>), and
  the response itself: a dictionary from stream names to streams, where a
  stream that was not returned is \<open>None\<close>.
\<close>

record 'a stream =
  original_size :: nat
  data :: "'a list"

record data_streams =
  ds_time :: "int stream option"
  ds_latlng :: "(real \<times> real) stream option"
  ds_altitude :: "real stream option"
  ds_temp :: "real stream option"
  ds_watts :: "real stream option"
  ds_heartrate :: "real stream option"
  ds_cadence :: "real stream option"

text \<open>
  Python's own formatting is a parameter of the model: the format
  specifications \<^verbatim>\<open>.7f\<close> and \<^verbatim>\<open>.1f\<close>, the plain \<^verbatim>\<open>{v}\<close> of an f-string, and
  \<^verbatim>\<open>(datetime.fromisoformat(s) + timedelta(seconds=n)).isoformat()\<close>, which
  raises on a string that is no ISO 8601 timestamp (\<open>None\<close>).
\<close>

record pyfmt =
  fmt_7f :: "real \<Rightarrow> string"
  fmt_1f :: "real \<Rightarrow> string"
  fmt_val :: "real \<Rightarrow> string"
  iso_plus_seconds :: "string \<Rightarrow> int \<Rightarrow> string option"

definition add_seconds_to_timestamp :: "pyfmt \<Rightarrow> string \<Rightarrow> int \<Rightarrow> string option" where
  "add_seconds_to_timestamp fm start_timestamp seconds =
     map_option (\<lambda>iso. py_replace ''+00:00'' [] (iso @ ''Z''))
       (iso_plus_seconds fm start_timestamp seconds)"

definition schema_location :: string where
  "schema_location = py_join '' ''
     [''http://www.topografix.com/GPX/1.1'',
      ''http://www.topografix.com/GPX/1.1/gpx.xsd'',
      ''http://www.garmin.com/xmlschemas/GpxExtensions/v3'',
      ''http://www.garmin.com/xmlschemas/GpxExtensionsv3.xsd'',
      ''http://www.garmin.com/xmlschemas/TrackPointExtension/v1'',
      ''http://www.garmin.com/xmlschemas/TrackPointExtensionv1.xsd'']"

definition gpx_header :: "activity \<Rightarrow> string" where
  \<open>gpx_header activity =
     ''<?xml version="1.0" encoding="UTF-8"?>'' @ newline @
     ''<gpx '' @
     ''xmlns:xsi="http://www.w3.org/2001/XMLSchema-instance" '' @
     ''xsi:schemaLocation="'' @ schema_location @ ''" '' @
     ''creator="StravaGPX" version="1.1" '' @
     ''xmlns="http://www.topografix.com/GPX/1.1" '' @
     ''xmlns:gpxtpx="http://www.garmin.com/xmlschemas/TrackPointExtension/v1" '' @
     ''xmlns:gpxx="http://www.garmin.com/xmlschemas/GpxExtensions/v3">'' @ newline @
     ''  <metadata>'' @ newline @
     ''    <time>'' @ act_start_date activity @ ''</time>'' @ newline @
     ''  </metadata>'' @ newline @
     ''  <trk>'' @ newline @
     ''    <name>'' @ act_name activity @ ''</name>'' @ newline @
     ''    <type>'' @ act_type activity @ ''</type>'' @ newline @
     ''    <desc>'' @ act_sport_type activity @ ''</desc>'' @ newline @
     ''    <link>https://www.strava.com/activities/'' @ py_str (act_id activity) @ ''</link>'' @ newline @
     ''    <trkseg>''\<close>

definition gpx_footer :: string where
  "gpx_footer = ''    </trkseg>'' @ newline @ ''  </trk>'' @ newline @ ''</gpx>''"

text \<open>\<^verbatim>\<open>xs[i]\<close> for \<open>i \<ge> 0\<close>: an index out of range raises.\<close>

definition nth_opt :: "'a list \<Rightarrow> nat \<Rightarrow> 'a option" where
  "nth_opt xs i = (if i < length xs then Some (xs ! i) else None)"

text \<open>\<^verbatim>\<open>data_streams[key]["data"][i]\<close>: a missing key raises as well.\<close>

definition stream_at :: "'a stream option \<Rightarrow> nat \<Rightarrow> 'a option" where
  "stream_at s i = (case s of None \<Rightarrow> None | Some st \<Rightarrow> nth_opt (data st) i)"

text \<open>An optional extension line of a track point: present only when the flag is 1.\<close>

definition extension_line ::
  "pyfmt \<Rightarrow> nat \<Rightarrow> string \<Rightarrow> real stream option \<Rightarrow> nat \<Rightarrow> string list option" where
  "extension_line fm flag tag s i =
     (if flag = 1
      then map_option
             (\<lambda>v. [''      <gpxtpx:'' @ tag @ ''>'' @ fmt_val fm v @ ''</gpxtpx:'' @ tag @ ''>''])
             (stream_at s i)
      else Some [])"

text \<open>
  The body of the loop of \<^verbatim>\<open>write_to_gpx\<close> for sample \<open>i\<close>: the text of one
  track point, or \<open>None\<close> when a statement of the body raises.
\<close>

definition trkpt_at ::
  "pyfmt \<Rightarrow> stream_flags \<Rightarrow> activity \<Rightarrow> data_streams \<Rightarrow> nat \<Rightarrow> string option" where
  \<open>trkpt_at fm streams activity ds i =
     do {
       seconds \<leftarrow> stream_at (ds_time ds) i;
       time \<leftarrow> add_seconds_to_timestamp fm (act_start_date activity) seconds;
       latlon \<leftarrow> stream_at (ds_latlng ds) i;
       ele \<leftarrow> stream_at (ds_altitude ds) i;
       temp \<leftarrow> extension_line fm (st_temp streams) ''atemp'' (ds_temp ds) i;
       watts \<leftarrow> extension_line fm (st_watts streams) ''watts'' (ds_watts ds) i;
       hr \<leftarrow> extension_line fm (st_heartrate streams) ''hr'' (ds_heartrate ds) i;
       cad \<leftarrow> extension_line fm (st_cadence streams) ''cad'' (ds_cadence ds) i;
       Some (py_join newline
         ([newline @ ''   <trkpt lat="'' @ fmt_7f fm (fst latlon) @ ''" lon="'' @
             fmt_7f fm (snd latlon) @ ''">'',
           ''    <ele>'' @ fmt_1f fm ele @ ''</ele>'',
           ''    <time>'' @ time @ ''</time>'',
           ''    <extensions>'',
           ''     <gpxtpx:TrackPointExtension>'']
          @ temp @ watts @ hr @ cad @
          [''     </gpxtpx:TrackPointExtension>'', ''    </extensions>'', ''   </trkpt>'']))
     }\<close>

text \<open>
  The statements of \<^verbatim>\<open>write_to_gpx\<close> between the size test and the second
  \<^verbatim>\<open>open\<close>: all track points, \<open>None\<close> when building one of them raises.
\<close>

definition build_trkpts ::
  "pyfmt \<Rightarrow> stream_flags \<Rightarrow> activity \<Rightarrow> data_streams \<Rightarrow> nat \<Rightarrow> string list option" where
  "build_trkpts fm streams activity ds n = those (map (trkpt_at fm streams activity ds) [0..<n])"

text \<open>The local file system: file names and their contents.\<close>

type_synonym files = "string \<rightharpoonup> string"

text \<open>
  What the outside world answers during one pass through the per-activity
  block of the synchroniser: the two Strava requests (\<open>Inl\<close> carries the text of
  the exception that \<^verbatim>\<open>_make_request\<close> raises), whether the two \<^verbatim>\<open>open\<close>/\<^verbatim>\<open>write\<close>
  blocks on the local file succeed, and whether Nextcloud accepts the upload of
  the track log and of the state document.
\<close>

record responses =
  r_activity :: "string + activity"
  r_open_w :: bool
  r_streams :: "string + data_streams"
  r_open_a :: bool
  r_upload_gpx :: bool
  r_upload_state :: bool

text \<open>
  How \<^verbatim>\<open>write_to_gpx\<close> ended when it returned: it wrote the whole file, it
  returned at the size test, or its \<^verbatim>\<open>except\<close> clause printed an exception.
\<close>

datatype gpx_result = GpxSaved | GpxSizeMismatch | GpxExceptionPrinted

text \<open>
  \<^verbatim>\<open>write_to_gpx(activity_id, output)\<close>.  The request for the activity is made
  before the \<^verbatim>\<open>try\<close>, so its exception propagates (\<open>Inl\<close>); everything after it
  is inside the \<^verbatim>\<open>try\<close>, whose \<^verbatim>\<open>except Exception\<close> prints and returns.  The first
  \<^verbatim>\<open>open(..., "w")\<close> writes header and footer; the second \<^verbatim>\<open>open(..., "a")\<close>
  appends the track points and the footer.
\<close>

definition write_to_gpx ::
  "pyfmt \<Rightarrow> responses \<Rightarrow> int \<Rightarrow> string \<Rightarrow> files \<Rightarrow> string + (gpx_result \<times> files)" where
  "write_to_gpx fm r activity_id output fs =
     (case r_activity r of
        Inl err \<Rightarrow> Inl err
      | Inr activity \<Rightarrow>
          let path = output @ ''.gpx'';
              gpx_content = gpx_header activity @ gpx_footer
          in if \<not> r_open_w r then Inr (GpxExceptionPrinted, fs)
             else
               let fs1 = fs(path \<mapsto> gpx_content);
                   streams = detect_activity_streams activity
               in (case r_streams r of
                     Inl err \<Rightarrow> Inr (GpxExceptionPrinted, fs1)
                   | Inr ds \<Rightarrow>
                       (case (ds_latlng ds, ds_time ds) of
                          (Some latlng, Some time) \<Rightarrow>
                            if original_size latlng \<noteq> original_size time
                            then Inr (GpxSizeMismatch, fs1)
                            else (case build_trkpts fm streams activity ds (original_size time) of
                                    None \<Rightarrow> Inr (GpxExceptionPrinted, fs1)
                                  | Some trkpts \<Rightarrow>
                                      if \<not> r_open_a r then Inr (GpxExceptionPrinted, fs1)
                                      else Inr (GpxSaved,
                                             fs1(path \<mapsto> gpx_content @ concat trkpts @ gpx_footer)))
                        | _ \<Rightarrow> Inr (GpxExceptionPrinted, fs1))))"

section \<open>The state of a run\<close>

text \<open>
  Time is Python's \<^verbatim>\<open>datetime\<close> in UTC: an integer number of microseconds since
  the epoch; durations are microseconds as well.  Calls to the collaborators
  are recorded, with the time at which they start, in a trace.  In the model
  only \<^verbatim>\<open>asyncio.sleep\<close> lets time pass.
\<close>

datatype event =
    LoadBackoff
  | Sleep int
  | Connect
  | ListActivities
  | WriteGpx int
  | UploadGpx string string
  | SaveSyncedIds
  | SaveBackoff int
  | RemoveFile string

text \<open>
  The attribute \<^verbatim>\<open>self.synced_ids\<close>, the local working directory, the Nextcloud
  folder (uploaded files, the state document \<^verbatim>\<open>synced_activities.json\<close> and the
  backoff document), the two counters of \<^verbatim>\<open>sync_activities\<close>, the clock and the
  trace.
\<close>

record sync_state =
  synced_ids :: "string set"
  local_files :: files
  remote_files :: files
  remote_synced :: "string set option"
  remote_backoff :: "int option"
  batch_count :: nat
  daily_count :: nat
  clock :: int
  trace :: "(int \<times> event) list"

definition record_event :: "event \<Rightarrow> sync_state \<Rightarrow> sync_state" where
  "record_event ev s = s\<lparr>trace := trace s @ [(clock s, ev)]\<rparr>"

definition seconds :: "int \<Rightarrow> int" where
  "seconds n = n * 1000000"

text \<open>\<^verbatim>\<open>await asyncio.sleep(d)\<close>; a delay that is not positive returns at once.\<close>

definition asyncio_sleep :: "int \<Rightarrow> sync_state \<Rightarrow> sync_state" where
  "asyncio_sleep d s = (record_event (Sleep d) s)\<lparr>clock := clock s + max 0 d\<rparr>"

section \<open>The Nextcloud client (\<^verbatim>\<open>nextcloud_client.py\<close>)\<close>

text \<open>
  \<^verbatim>\<open>upload_gpx\<close>: the upload needs the local file and Nextcloud's consent; its
  \<^verbatim>\<open>except Exception\<close> logs any failure and the method returns normally either
  way.
\<close>

definition upload_gpx :: "string \<Rightarrow> responses \<Rightarrow> string \<Rightarrow> string \<Rightarrow> sync_state \<Rightarrow> sync_state" where
  "upload_gpx target_folder r local_path remote_filename s =
     (let remote_path = target_folder @ ''/'' @ remote_filename;
          s1 = record_event (UploadGpx local_path remote_path) s
      in case local_files s1 local_path of
           None \<Rightarrow> s1
         | Some content \<Rightarrow>
             if r_upload_gpx r
             then s1\<lparr>remote_files := (remote_files s1)(remote_path \<mapsto> content)\<rparr>
             else s1)"

text \<open>
  \<^verbatim>\<open>save_synced_ids\<close>: dumps the set to the local file \<^verbatim>\<open>synced_activities.json\<close>,
  uploads it, and removes the local file in its \<^verbatim>\<open>finally\<close>; failures are logged,
  not raised.
\<close>

definition save_synced_ids :: "responses \<Rightarrow> sync_state \<Rightarrow> sync_state" where
  "save_synced_ids r s =
     (let s1 = record_event SaveSyncedIds s;
          s2 = (if r_upload_state r then s1\<lparr>remote_synced := Some (synced_ids s1)\<rparr> else s1)
      in s2\<lparr>local_files := (local_files s2)(''synced_activities.json'' := None)\<rparr>)"

text \<open>\<^verbatim>\<open>save_backoff_until\<close>: failures are logged, not raised.\<close>

definition save_backoff_until :: "bool \<Rightarrow> int \<Rightarrow> sync_state \<Rightarrow> sync_state" where
  "save_backoff_until accepted dt_utc s =
     (let s1 = record_event (SaveBackoff dt_utc) s
      in if accepted then s1\<lparr>remote_backoff := Some dt_utc\<rparr> else s1)"

text \<open>\<^verbatim>\<open>load_backoff_until\<close>: any failure to fetch or parse the document gives \<^verbatim>\<open>None\<close>.\<close>

definition load_backoff_until :: "bool \<Rightarrow> sync_state \<Rightarrow> int option \<times> sync_state" where
  "load_backoff_until readable s =
     (if readable then remote_backoff s else None, record_event LoadBackoff s)"

section \<open>The synchroniser (\<^verbatim>\<open>syncer.py\<close>)\<close>

definition RATE_LIMIT :: nat where
  "RATE_LIMIT = 100"

definition SLEEP_SECONDS :: int where
  "SLEEP_SECONDS = 15 * 60"

definition usec_per_day :: int where
  "usec_per_day = seconds (24 * 60 * 60)"

text \<open>
  \<^verbatim>\<open>(now + timedelta(days=1)).replace(hour=0, minute=0, second=0, microsecond=0)\<close>
  for a UTC time: one day later, cut down to the start of that day.
\<close>

definition next_utc_day :: "int \<Rightarrow> int" where
  "next_utc_day now = ((now + usec_per_day) div usec_per_day) * usec_per_day"

text \<open>The test of the \<^verbatim>\<open>except\<close> clause on the text of the exception.\<close>

definition is_rate_limit :: "string \<Rightarrow> bool" where
  "is_rate_limit err_msg = (py_in ''429'' err_msg \<or> py_in ''Rate Limit Exceeded'' err_msg)"

text \<open>
  How one pass through the body of \<^verbatim>\<open>while True\<close> ends: at the \<^verbatim>\<open>break\<close> of
  the \<^verbatim>\<open>try\<close> block, at the \<^verbatim>\<open>continue\<close> of the handler, or at the \<^verbatim>\<open>break\<close> of
  the handler.
\<close>

datatype outcome = Completed | Retry | Abandoned

text \<open>The \<^verbatim>\<open>except Exception as e\<close> clause of the per-activity block.\<close>

definition on_exception :: "string \<Rightarrow> sync_state \<Rightarrow> outcome \<times> sync_state" where
  "on_exception err_msg s =
     (if is_rate_limit err_msg then (Retry, asyncio_sleep (seconds SLEEP_SECONDS) s)
      else (Abandoned, s))"

text \<open>\<^verbatim>\<open>str\<close> of the \<^verbatim>\<open>FileNotFoundError\<close> that \<^verbatim>\<open>os.remove\<close> raises.\<close>

definition file_not_found :: "string \<Rightarrow> string" where
  "file_not_found path =
     ''[Errno 2] No such file or directory: '' @ [CHR 0x27] @ path @ [CHR 0x27]"

text \<open>Lines 92 to 94: the name of the local file that is uploaded and removed.\<close>

definition gpx_filename_for :: "files \<Rightarrow> int \<Rightarrow> string" where
  "gpx_filename_for fs activity_id =
     (let gpx_filename = ''temp_gpx_'' @ py_str activity_id @ ''.gpx''
      in if fs gpx_filename = None then ''temp_gpx.gpx'' else gpx_filename)"

text \<open>Lines 95 to 97: the name of the file in the Nextcloud folder.\<close>

definition remote_filename_for :: "summary \<Rightarrow> string" where
  "remote_filename_for a =
     (let activity_date = take 10 (a_start_date a);
          safe_name = py_replace ''/'' ''-'' (py_replace '' '' ''_'' (a_name a))
      in activity_date @ ''_'' @ safe_name @ ''.gpx'')"

text \<open>
  Lines 98 to 101: upload the file, add the identifier to \<^verbatim>\<open>self.synced_ids\<close>
  and save the set.  None of the three statements can raise.
\<close>

definition upload_and_mark ::
  "string \<Rightarrow> responses \<Rightarrow> summary \<Rightarrow> string \<Rightarrow> sync_state \<Rightarrow> sync_state" where
  "upload_and_mark target_folder r a gpx_filename s =
     (let s1 = upload_gpx target_folder r gpx_filename (remote_filename_for a) s;
          s2 = s1\<lparr>synced_ids := insert (py_str (a_id a)) (synced_ids s1)\<rparr>
      in save_synced_ids r s2)"

text \<open>
  Lines 102 to 105: \<^verbatim>\<open>os.remove\<close> raises when the file does not exist, which
  takes control to the \<^verbatim>\<open>except\<close> clause; otherwise both counters are
  incremented and the \<^verbatim>\<open>while\<close> loop is left.
\<close>

definition remove_and_count :: "string \<Rightarrow> sync_state \<Rightarrow> outcome \<times> sync_state" where
  "remove_and_count gpx_filename s =
     (if local_files s gpx_filename = None
      then on_exception (file_not_found gpx_filename) s
      else
        let s1 = (record_event (RemoveFile gpx_filename) s)
                   \<lparr>local_files := (local_files s)(gpx_filename := None)\<rparr>
        in (Completed,
            s1\<lparr>batch_count := batch_count s1 + 1, daily_count := daily_count s1 + 1\<rparr>))"

text \<open>
  One pass through the body of \<^verbatim>\<open>while True\<close> (lines 87 to 114) for the delta
  entry \<open>a\<close>, with the answers \<open>r\<close> of the outside world.
\<close>

definition try_activity ::
  "pyfmt \<Rightarrow> string \<Rightarrow> responses \<Rightarrow> summary \<Rightarrow> sync_state \<Rightarrow> outcome \<times> sync_state" where
  "try_activity fm target_folder r a s =
     (let s1 = record_event (WriteGpx (a_id a)) s
      in case write_to_gpx fm r (a_id a) ''temp_gpx'' (local_files s1) of
           Inl err \<Rightarrow> on_exception err s1
         | Inr (res, fs) \<Rightarrow>
             let s2 = s1\<lparr>local_files := fs\<rparr>;
                 gpx_filename = gpx_filename_for fs (a_id a)
             in remove_and_count gpx_filename
                  (upload_and_mark target_folder r a gpx_filename s2))"

text \<open>
  The loop \<^verbatim>\<open>while True\<close> for one delta entry.  Every pass takes the next answers
  of the outside world from the script \<open>rs\<close>; a script that ends while the loop
  is still retrying leaves the loop where it is (\<open>Retry\<close>).  The remaining
  script is returned for the next entry.
\<close>

fun retry_activity ::
  "pyfmt \<Rightarrow> string \<Rightarrow> responses list \<Rightarrow> summary \<Rightarrow> sync_state
     \<Rightarrow> outcome \<times> responses list \<times> sync_state" where
  "retry_activity fm target_folder [] a s = (Retry, [], s)"
| "retry_activity fm target_folder (r # rs) a s =
     (case try_activity fm target_folder r a s of
        (Retry, s') \<Rightarrow> retry_activity fm target_folder rs a s'
      | (Completed, s') \<Rightarrow> (Completed, rs, s')
      | (Abandoned, s') \<Rightarrow> (Abandoned, rs, s'))"

text \<open>
  A run returns, raises, or is still inside a \<^verbatim>\<open>while True\<close> loop when the script
  of answers ends; the state reached is kept in every case.
\<close>

datatype sync_error = ValueError string | CollaboratorError string

datatype run_result = Returned sync_state | Raised sync_error sync_state | Unfinished sync_state

fun state_of :: "run_result \<Rightarrow> sync_state" where
  "state_of (Returned s) = s"
| "state_of (Raised e s) = s"
| "state_of (Unfinished s) = s"

text \<open>The burst check at the top of the \<^verbatim>\<open>for\<close> body (lines 71 to 74).\<close>

definition burst_check :: "sync_state \<Rightarrow> sync_state" where
  "burst_check s =
     (if batch_count s \<ge> RATE_LIMIT
      then (asyncio_sleep (seconds SLEEP_SECONDS) s)\<lparr>batch_count := 0\<rparr>
      else s)"

text \<open>The body of the daily check (lines 76 to 84), up to its \<^verbatim>\<open>return\<close>.\<close>

definition daily_backoff :: "bool \<Rightarrow> sync_state \<Rightarrow> sync_state" where
  "daily_backoff accepted s =
     (let now = clock s;
          next_day = next_utc_day now;
          s1 = save_backoff_until accepted next_day s
      in asyncio_sleep (next_day - now) s1)"

text \<open>The \<^verbatim>\<open>for\<close> loop over \<^verbatim>\<open>new_activities\<close> (lines 70 to 114).\<close>

fun sync_loop ::
  "pyfmt \<Rightarrow> string \<Rightarrow> bool \<Rightarrow> responses list \<Rightarrow> summary list \<Rightarrow> sync_state \<Rightarrow> run_result" where
  "sync_loop fm target_folder accepted rs [] s = Returned s"
| "sync_loop fm target_folder accepted rs (a # rest) s =
     (let s1 = burst_check s
      in if daily_count s1 \<ge> 1000 then Returned (daily_backoff accepted s1)
         else (case retry_activity fm target_folder rs a s1 of
                 (Retry, rs', s2) \<Rightarrow> Unfinished s2
               | (Completed, rs', s2) \<Rightarrow> sync_loop fm target_folder accepted rs' rest s2
               | (Abandoned, rs', s2) \<Rightarrow> sync_loop fm target_folder accepted rs' rest s2))"

text \<open>
  The answers of the outside world during one run: whether the backoff
  document can be read, whether \<^verbatim>\<open>connect\<close> raises (\<open>Some\<close> the text), the listing
  or the exception it raises, the script for the per-activity blocks, and
  whether Nextcloud accepts the backoff document.
\<close>

record environment =
  e_backoff_readable :: bool
  e_connect :: "string option"
  e_activities :: "string + summary list"
  e_responses :: "responses list"
  e_backoff_accepted :: bool

text \<open>\<^verbatim>\<open>sync_activities\<close>.\<close>

definition sync_activities :: "pyfmt \<Rightarrow> SyncConfig \<Rightarrow> environment \<Rightarrow> sync_state \<Rightarrow> run_result" where
  "sync_activities fm config env s =
     (if \<not> strava_ready config
      then Raised (ValueError ''Strava credentials not properly configured'') s
      else
        let (backoff_until, s1) = load_backoff_until (e_backoff_readable env) s;
            now = clock s1;
            s2 = (case backoff_until of
                    None \<Rightarrow> s1
                  | Some until \<Rightarrow> if now < until then asyncio_sleep (until - now) s1 else s1);
            s3 = record_event Connect s2
        in case e_connect env of
             Some err \<Rightarrow> Raised (CollaboratorError err) s3
           | None \<Rightarrow>
               let s4 = record_event ListActivities s3
               in case e_activities env of
                    Inl err \<Rightarrow> Raised (CollaboratorError err) s4
                  | Inr activities_list \<Rightarrow>
                      sync_loop fm (nextcloud_target_folder config) (e_backoff_accepted env)
                        (e_responses env)
                        (new_activities (synced_ids s4) activities_list)
                        (s4\<lparr>batch_count := 0, daily_count := 0\<rparr>))"

section \<open>Observing a run\<close>

text \<open>The events that the \<^verbatim>\<open>for\<close> loop can produce.\<close>

fun loop_event :: "event \<Rightarrow> bool" where
  "loop_event LoadBackoff = False"
| "loop_event Connect = False"
| "loop_event ListActivities = False"
| "loop_event _ = True"

text \<open>The events recorded between a state and a later state of the same run.\<close>

definition new_events :: "sync_state \<Rightarrow> sync_state \<Rightarrow> (int \<times> event) list" where
  "new_events s s' = drop (length (trace s)) (trace s')"

text \<open>
  The number of passes through the per-activity block that ran to its end:
  \<^verbatim>\<open>os.remove\<close> is the last statement of the block that can raise, and only the
  block calls it.
\<close>

definition completions :: "(int \<times> event) list \<Rightarrow> nat" where
  "completions evs =
     length (filter (\<lambda>(t, e). case e of RemoveFile f \<Rightarrow> True | _ \<Rightarrow> False) evs)"

text \<open>The identifiers of the per-activity passes and the delays of the sleeps, in order.\<close>

definition attempts :: "(int \<times> event) list \<Rightarrow> int list" where
  "attempts evs = concat (map (\<lambda>(t, e). case e of WriteGpx i \<Rightarrow> [i] | _ \<Rightarrow> []) evs)"

definition sleeps :: "(int \<times> event) list \<Rightarrow> int list" where
  "sleeps evs = concat (map (\<lambda>(t, e). case e of Sleep d \<Rightarrow> [d] | _ \<Rightarrow> []) evs)"

text \<open>
  \<open>later s s'\<close>: the state \<open>s'\<close> is reached from \<open>s\<close> inside the \<^verbatim>\<open>for\<close> loop.  The
  trace has only grown, by loop events stamped between the two clocks; the
  daily counter has grown by the number of completed passes; a backoff
  document that was there is still there.
\<close>

definition later :: "sync_state \<Rightarrow> sync_state \<Rightarrow> bool" where
  "later s s' \<longleftrightarrow>
     prefix (trace s) (trace s') \<and> clock s \<le> clock s'
     \<and> list_all (\<lambda>(t, e). clock s \<le> t \<and> t \<le> clock s' \<and> loop_event e) (new_events s s')
     \<and> daily_count s' = daily_count s + completions (new_events s s')
     \<and> (remote_backoff s = None \<or> remote_backoff s' \<noteq> None)"

section \<open>Example inputs\<close>

text \<open>Python's formatting on the values that the examples below use.\<close>

definition example_fmt :: pyfmt where
  "example_fmt =
     \<lparr> fmt_7f = (\<lambda>x. if x = 103 / 2 then ''51.5000000''
                     else if x = - 1 / 4 then ''-0.2500000'' else ''0.0000000''),
       fmt_1f = (\<lambda>x. if x = 12 then ''12.0'' else ''0.0''),
       fmt_val = (\<lambda>x. if x = 140 then ''140'' else ''0''),
       iso_plus_seconds = (\<lambda>s n.
         if s = ''2024-03-01T10:00:00Z'' \<and> n = 0 then Some ''2024-03-01T10:00:00+00:00''
         else if s = ''2024-03-01T10:00:00Z'' \<and> n = 5 then Some ''2024-03-01T10:00:05+00:00''
         else None) \<rparr>"

definition example_config :: SyncConfig where
  "example_config =
     \<lparr> strava_client_id = Some ''12345'',
       strava_refresh_token = Some ''refresh-token'',
       strava_client_secret = Some ''client-secret'',
       nextcloud_url = Some ''https://cloud.example.org'',
       nextcloud_username = Some ''rider'',
       nextcloud_password = Some ''app-password'',
       nextcloud_target_folder = ''/GPX/Strava'',
       sync_interval_seconds = 600 \<rparr>"

text \<open>A first run at 2024-03-01 10:00:00 UTC: nothing synced, nothing stored.\<close>

definition example_state :: sync_state where
  "example_state =
     \<lparr> synced_ids = {}, local_files = Map.empty, remote_files = Map.empty,
       remote_synced = None, remote_backoff = None,
       batch_count = 0, daily_count = 0,
       clock = seconds 1709287200, trace = [] \<rparr>"

text \<open>An account without activities.\<close>

definition example_env_empty :: environment where
  "example_env_empty =
     \<lparr> e_backoff_readable = True, e_connect = None, e_activities = Inr [],
       e_responses = [], e_backoff_accepted = True \<rparr>"

text \<open>One entry of a listing.\<close>

definition example_ride :: summary where
  "example_ride =
     \<lparr> a_name = ''Morning Run/2'', a_id = 42, a_start_date = ''2024-03-01T10:00:00Z'',
       a_type = ''Run'' \<rparr>"

text \<open>A pass in which no request, no file operation and no upload fails.\<close>

definition no_errors :: "responses \<Rightarrow> bool" where
  "no_errors r \<longleftrightarrow>
     (case r_activity r of Inl err \<Rightarrow> False | Inr activity \<Rightarrow> True) \<and> r_open_w r
     \<and> (case r_streams r of Inl err \<Rightarrow> False | Inr ds \<Rightarrow> True) \<and> r_open_a r
     \<and> r_upload_gpx r \<and> r_upload_state r"

text \<open>The detail and the streams of the example activity: two samples, with heart rate.\<close>

definition example_activity :: activity where
  "example_activity =
     \<lparr> act_name = ''Morning Run/2'', act_id = 42, act_start_date = ''2024-03-01T10:00:00Z'',
       act_type = ''Run'', act_sport_type = ''Run'', act_device_watts = None,
       act_has_heartrate = True, act_average_cadence = None, act_average_temp = None \<rparr>"

definition example_streams :: data_streams where
  "example_streams =
     \<lparr> ds_time = Some \<lparr> original_size = 2, data = [0, 5] \<rparr>,
       ds_latlng = Some \<lparr> original_size = 2, data = [(103 / 2, - 1 / 4), (103 / 2, - 1 / 4)] \<rparr>,
       ds_altitude = Some \<lparr> original_size = 2, data = [12, 12] \<rparr>,
       ds_temp = None, ds_watts = None,
       ds_heartrate = Some \<lparr> original_size = 2, data = [140, 140] \<rparr>,
       ds_cadence = None \<rparr>"

text \<open>A pass for the example activity in which nothing fails.\<close>

definition example_responses :: responses where
  "example_responses =
     \<lparr> r_activity = Inr example_activity, r_open_w = True, r_streams = Inr example_streams,
       r_open_a = True, r_upload_gpx = True, r_upload_state = True \<rparr>"

text \<open>
  The text of the exception that \<^verbatim>\<open>raise_for_status\<close> raises for a response with
  status 429 that carries no reset header.
\<close>

definition too_many_requests :: string where
  "too_many_requests =
     ''429, message='' @ [CHR 0x27] @ ''Too Many Requests'' @ [CHR 0x27] @
     '', url=https://www.strava.com/api/v3/activities/42''"

text \<open>A listing with the example activity only, and a script for its passes.\<close>

definition example_env :: "responses list \<Rightarrow> environment" where
  "example_env rs =
     \<lparr> e_backoff_readable = True, e_connect = None, e_activities = Inr [example_ride],
       e_responses = rs, e_backoff_accepted = True \<rparr>"

text \<open>
  The state in which the \<^verbatim>\<open>for\<close> loop of \<^verbatim>\<open>sync_activities\<close> starts when \<^verbatim>\<open>connect\<close>
  and the listing succeed: lines 51 to 69.
\<close>

definition before_loop :: "environment \<Rightarrow> sync_state \<Rightarrow> sync_state" where
  "before_loop env s =
     (let (backoff_until, s1) = load_backoff_until (e_backoff_readable env) s;
          now = clock s1;
          s2 = (case backoff_until of
                  None \<Rightarrow> s1
                | Some until \<Rightarrow> if now < until then asyncio_sleep (until - now) s1 else s1);
          s4 = record_event ListActivities (record_event Connect s2)
      in s4\<lparr>batch_count := 0, daily_count := 0\<rparr>)"

text \<open>Streams whose sizes differ: 10 positions, 12 times.\<close>

definition example_streams_mismatch :: data_streams where
  "example_streams_mismatch =
     example_streams
       \<lparr> ds_time := Some \<lparr> original_size = 12, data = map int [0..<12] \<rparr>,
         ds_latlng := Some \<lparr> original_size = 10, data = replicate 10 (103 / 2, - 1 / 4) \<rparr> \<rparr>"

section \<open>Properties\<close>

subsection \<open>The delta\<close>

lemma fold_append_filter:
  "fold (\<lambda>a acc. if P a then acc @ [a] else acc) xs ys = ys @ filter P xs"
  by (induction xs arbitrary: ys) auto

text \<open>
  Claim C3.  For every activity list \<open>A\<close> in listing order and every synced set \<open>S\<close>,
  the computed delta is the subsequence of \<open>A\<close> made of exactly the activities
  whose identifier, as text, is not in \<open>S\<close>, in the order of \<open>A\<close>.
\<close>

theorem delta_is_filtered_subsequence:
  "new_activities S A = filter (\<lambda>a. py_str (a_id a) \<notin> S) A
   \<and> subseq (new_activities S A) A
   \<and> (\<forall>a. a \<in> set (new_activities S A) \<longleftrightarrow> a \<in> set A \<and> py_str (a_id a) \<notin> S)"
  by (simp add: new_activities_def fold_append_filter)

subsection \<open>States of one run\<close>

lemma later_refl: "later s s"
  by (auto simp: later_def new_events_def completions_def)

lemma laterI:
  "trace s' = trace s @ evs \<Longrightarrow> clock s \<le> clock s' \<Longrightarrow>
   list_all (\<lambda>(t, e). clock s \<le> t \<and> t \<le> clock s' \<and> loop_event e) evs \<Longrightarrow>
   daily_count s' = daily_count s + completions evs \<Longrightarrow>
   remote_backoff s = None \<or> remote_backoff s' \<noteq> None \<Longrightarrow> later s s'"
  by (simp add: later_def new_events_def)

lemma completions_append: "completions (xs @ ys) = completions xs + completions ys"
  by (simp add: completions_def)

lemma laterD:
  "later s s' \<Longrightarrow> trace s' = trace s @ new_events s s'"
  by (auto simp: later_def new_events_def prefix_def)

lemma new_events_trans:
  "later s s' \<Longrightarrow> later s' s'' \<Longrightarrow> new_events s s'' = new_events s s' @ new_events s' s''"
  by (auto simp: later_def new_events_def prefix_def)

lemma later_trans: 
  assumes "later s s'" "later s' s''" shows "later s s''"
proof -
  have 1: "trace s'' = trace s @ new_events s s' @ new_events s' s''"
    using laterD[OF assms(1)] laterD[OF assms(2)] by simp
  have c: "clock s \<le> clock s'" "clock s' \<le> clock s''" using assms by (auto simp: later_def)
  have a: "list_all (\<lambda>(t, e). clock s \<le> t \<and> t \<le> clock s' \<and> loop_event e) (new_events s s')"
    using assms(1) by (simp add: later_def)
  have b: "list_all (\<lambda>(t, e). clock s' \<le> t \<and> t \<le> clock s'' \<and> loop_event e) (new_events s' s'')"
    using assms(2) by (simp add: later_def)
  have "list_all (\<lambda>(t, e). clock s \<le> t \<and> t \<le> clock s'' \<and> loop_event e) (new_events s s' @ new_events s' s'')"
    using a b c by (auto simp: list_all_iff)
  moreover have "daily_count s'' = daily_count s + completions (new_events s s' @ new_events s' s'')"
    using assms by (simp add: later_def completions_append)
  moreover have "remote_backoff s = None \<or> remote_backoff s'' \<noteq> None"
    using assms by (auto simp: later_def)
  ultimately show ?thesis using 1 c by (intro laterI[where evs="new_events s s' @ new_events s' s''"]) auto
qed

lemma later_record_event:
  "loop_event ev \<Longrightarrow> (\<forall>f. ev \<noteq> RemoveFile f) \<Longrightarrow> later s (record_event ev s)"
  by (rule laterI[where evs="[(clock s, ev)]"])
     (auto simp: record_event_def completions_def split: event.splits)

lemma later_asyncio_sleep: "later s (asyncio_sleep d s)"
  by (rule laterI[where evs="[(clock s, Sleep d)]"]) (auto simp: record_event_def asyncio_sleep_def completions_def)

lemma later_upload_gpx: "later s (upload_gpx tf r l rf s)"
  by (rule laterI[where evs="[(clock s, UploadGpx l (tf @ ''/'' @ rf))]"])
     (auto simp: upload_gpx_def record_event_def Let_def completions_def split: option.splits)

lemma later_save_synced_ids: "later s (save_synced_ids r s)"
  by (rule laterI[where evs="[(clock s, SaveSyncedIds)]"])
     (auto simp: save_synced_ids_def record_event_def Let_def completions_def)

lemma later_save_backoff_until: "later s (save_backoff_until b d s)"
  by (rule laterI[where evs="[(clock s, SaveBackoff d)]"])
     (auto simp: save_backoff_until_def record_event_def Let_def completions_def)

lemma later_on_exception: "later s (snd (on_exception m s))"
  by (simp add: on_exception_def later_refl later_asyncio_sleep)

lemma later_upd_local [simp]: "later s (s'\<lparr>local_files := f\<rparr>) = later s s'"
  by (simp add: later_def new_events_def)
lemma later_upd_synced [simp]: "later s (s'\<lparr>synced_ids := f\<rparr>) = later s s'"
  by (simp add: later_def new_events_def)
lemma later_upd_batch [simp]: "later s (s'\<lparr>batch_count := f\<rparr>) = later s s'"
  by (simp add: later_def new_events_def)

lemma later_upload_and_mark: "later s (upload_and_mark tf r a g s)"
  unfolding upload_and_mark_def Let_def
  by (rule later_trans[OF _ later_save_synced_ids]) (simp add: later_upload_gpx)

lemma later_remove_and_count: "later s (snd (remove_and_count g s))"
proof (cases "local_files s g = None")
  case True
  then show ?thesis by (simp add: remove_and_count_def later_on_exception)
next
  case False
  then show ?thesis
    by (intro laterI[where evs="[(clock s, RemoveFile g)]"])
       (auto simp: remove_and_count_def Let_def record_event_def completions_def)
qed

lemma later_try_activity: "later s (snd (try_activity fm tf r a s))"
proof -
  let ?s1 = "record_event (WriteGpx (a_id a)) s"
  have 1: "later s ?s1" by (simp add: later_record_event)
  show ?thesis
  proof (cases "write_to_gpx fm r (a_id a) ''temp_gpx'' (local_files ?s1)")
    case (Inl err)
    then show ?thesis
      using later_trans[OF 1 later_on_exception[where m=err and s="?s1"]]
      by (simp add: try_activity_def Let_def)
  next
    case (Inr p)
    obtain res fs where p: "p = (res, fs)" by (cases p)
    let ?g = "gpx_filename_for fs (a_id a)"
    let ?s2 = "?s1\<lparr>local_files := fs\<rparr>"
    have 2: "later s ?s2" using 1 by simp
    have 3: "later s (upload_and_mark tf r a ?g ?s2)"
      by (rule later_trans[OF 2 later_upload_and_mark])
    show ?thesis
      using Inr p later_trans[OF 3 later_remove_and_count]
      by (simp add: try_activity_def Let_def)
  qed
qed

lemma later_retry_activity: "later s (snd (snd (retry_activity fm tf rs a s)))"
proof (induction rs arbitrary: s)
  case Nil
  show ?case by (simp add: later_refl)
next
  case (Cons r rs)
  obtain oc s' where t: "try_activity fm tf r a s = (oc, s')" by (cases "try_activity fm tf r a s")
  have l: "later s s'" using later_try_activity[of s fm tf r a] t by simp
  show ?case
  proof (cases oc)
    case Retry
    then show ?thesis using t later_trans[OF l Cons.IH[of s']] by simp
  qed (use t l in auto)
qed

lemma later_burst_check: "later s (burst_check s)"
  by (simp add: burst_check_def later_refl later_asyncio_sleep)

lemma later_daily_backoff: "later s (daily_backoff b s)"
  unfolding daily_backoff_def Let_def
  by (rule later_trans[OF later_save_backoff_until later_asyncio_sleep])

lemma later_sync_loop: "later s (state_of (sync_loop fm tf b rs as s))"
proof (induction as arbitrary: rs s)
  case Nil
  show ?case by (simp add: later_refl)
next
  case (Cons a rest)
  let ?s1 = "burst_check s"
  have 1: "later s ?s1" by (rule later_burst_check)
  show ?case
  proof (cases "daily_count ?s1 \<ge> 1000")
    case True
    then show ?thesis using later_trans[OF 1 later_daily_backoff[of ?s1 b]] by (simp add: Let_def)
  next
    case False
    obtain oc rs' s2 where r: "retry_activity fm tf rs a ?s1 = (oc, rs', s2)"
      by (cases "retry_activity fm tf rs a ?s1") auto
    have 2: "later s s2" using later_trans[OF 1 later_retry_activity[of ?s1 fm tf rs a]] r by simp
    show ?thesis
      using False r 2 later_trans[OF 2 Cons.IH[of s2 rs']]
      by (cases oc) (simp_all add: Let_def)
  qed
qed

subsection \<open>Configuration errors\<close>

lemma sync_loop_not_raised: "sync_loop fm tf acc rs as s \<noteq> Raised e s'"
  by (induction fm tf acc rs as s rule: sync_loop.induct)
     (auto simp: Let_def split: prod.splits outcome.splits)

text \<open>
  Claim C8.  A run raises the configuration error (the \<^verbatim>\<open>ValueError\<close> of line 47)
  exactly when the three Strava credentials are not all present, and it does
  so in the state in which it started: nothing has been loaded, no collaborator
  has been called.  With complete credentials no configuration error is raised.
\<close>

theorem configuration_error_iff_credentials_missing:
  "(\<not> strava_ready config \<longrightarrow>
      sync_activities fm config env s =
        Raised (ValueError ''Strava credentials not properly configured'') s)
   \<and> (strava_ready config \<longrightarrow>
        (\<forall>msg s'. sync_activities fm config env s \<noteq> Raised (ValueError msg) s'))
   \<and> (strava_ready config \<longleftrightarrow>
        truthy (strava_client_id config) \<and> truthy (strava_client_secret config)
        \<and> truthy (strava_refresh_token config))"
  by (auto simp: sync_activities_def strava_ready_def Let_def sync_loop_not_raised
           split: prod.splits option.splits sum.splits)

theorem configuration_error_witness:
  "\<not> strava_ready (example_config\<lparr>strava_client_secret := None\<rparr>)
   \<and> sync_activities example_fmt (example_config\<lparr>strava_client_secret := None\<rparr>)
        example_env_empty example_state =
      Raised (ValueError ''Strava credentials not properly configured'') example_state
   \<and> trace example_state = []
   \<and> strava_ready example_config
   \<and> sync_activities example_fmt example_config example_env_empty example_state
       \<noteq> Raised (ValueError ''Strava credentials not properly configured'') example_state"
  using configuration_error_iff_credentials_missing
          [of "example_config\<lparr>strava_client_secret := None\<rparr>" example_fmt example_env_empty
              example_state]
        configuration_error_iff_credentials_missing
          [of example_config example_fmt example_env_empty example_state]
  by (simp add: truthy_def example_config_def example_state_def)

subsection \<open>The daily limit and the backoff marker\<close>

lemma usec_per_day_pos: "0 < usec_per_day"
  by (simp add: usec_per_day_def seconds_def)

lemma next_utc_day_bounds:
  "next_utc_day now mod usec_per_day = 0 \<and> now < next_utc_day now
   \<and> next_utc_day now \<le> now + usec_per_day"
proof -
  have m: "next_utc_day now mod usec_per_day = 0"
    by (simp add: next_utc_day_def)
  have eq: "next_utc_day now = now + usec_per_day - (now + usec_per_day) mod usec_per_day"
    unfolding next_utc_day_def
    using div_mult_mod_eq[of "now + usec_per_day" usec_per_day] by linarith
  have "0 \<le> (now + usec_per_day) mod usec_per_day"
       "(now + usec_per_day) mod usec_per_day < usec_per_day"
    using usec_per_day_pos by simp_all
  then show ?thesis using eq m by linarith
qed

lemma trace_asyncio_sleep [simp]: "trace (asyncio_sleep d s) = trace s @ [(clock s, Sleep d)]"
  by (simp add: asyncio_sleep_def record_event_def)

lemma burst_check_fields [simp]:
  "synced_ids (burst_check s) = synced_ids s" "local_files (burst_check s) = local_files s"
  "remote_files (burst_check s) = remote_files s" "remote_synced (burst_check s) = remote_synced s"
  "remote_backoff (burst_check s) = remote_backoff s" "daily_count (burst_check s) = daily_count s"
  by (simp_all add: burst_check_def asyncio_sleep_def record_event_def)

lemma burst_check_trace:
  "trace (burst_check s) =
     trace s @ (if batch_count s \<ge> RATE_LIMIT then [(clock s, Sleep (seconds SLEEP_SECONDS))] else [])"
  by (simp add: burst_check_def)

lemma burst_check_clock:
  "clock (burst_check s) =
     clock s + (if batch_count s \<ge> RATE_LIMIT then seconds SLEEP_SECONDS else 0)"
  by (simp add: burst_check_def asyncio_sleep_def record_event_def seconds_def SLEEP_SECONDS_def)

lemma burst_check_batch:
  "batch_count (burst_check s) = (if batch_count s \<ge> RATE_LIMIT then 0 else batch_count s)"
  by (simp add: burst_check_def)

lemma daily_backoff_fields:
  "synced_ids (daily_backoff acc s) = synced_ids s"
  "local_files (daily_backoff acc s) = local_files s"
  "remote_files (daily_backoff acc s) = remote_files s"
  "remote_synced (daily_backoff acc s) = remote_synced s"
  "remote_backoff (daily_backoff acc s) = (if acc then Some (next_utc_day (clock s)) else remote_backoff s)"
  "trace (daily_backoff acc s) =
     trace s @ [(clock s, SaveBackoff (next_utc_day (clock s))),
                (clock s, Sleep (next_utc_day (clock s) - clock s))]"
  "clock (daily_backoff acc s) = next_utc_day (clock s)"
  using next_utc_day_bounds[of "clock s"]
  by (simp_all add: daily_backoff_def save_backoff_until_def asyncio_sleep_def record_event_def Let_def)

text \<open>
  Claim C4.  When the daily counter has reached 1000 at the top of the loop body
  for a delta entry, the run saves the next UTC midnight as backoff marker,
  sleeps until that instant and returns: neither this entry nor a later one is
  attempted, and nothing is marked synced.  (The burst check runs first, so a
  15-minute cooldown may precede the save.  \<^verbatim>\<open>save_backoff_until\<close> swallows a failed
  write: the marker is in the store when Nextcloud accepts it.)
\<close>

theorem daily_limit_saves_marker_sleeps_and_returns:
  assumes "daily_count s \<ge> 1000"
  shows
  "let cooled = (batch_count s \<ge> RATE_LIMIT);
       now = clock s + (if cooled then seconds SLEEP_SECONDS else 0);
       midnight = next_utc_day now
   in (\<exists>s'. sync_loop fm target_folder accepted rs (a # rest) s = Returned s'
         \<and> new_events s s' =
             (if cooled then [(clock s, Sleep (seconds SLEEP_SECONDS))] else [])
             @ [(now, SaveBackoff midnight), (now, Sleep (midnight - now))]
         \<and> clock s' = midnight
         \<and> remote_backoff s' = (if accepted then Some midnight else remote_backoff s)
         \<and> synced_ids s' = synced_ids s \<and> remote_synced s' = remote_synced s
         \<and> remote_files s' = remote_files s \<and> local_files s' = local_files s)
      \<and> midnight mod usec_per_day = 0 \<and> now < midnight \<and> midnight \<le> now + usec_per_day"
  using assms next_utc_day_bounds
  by (simp add: Let_def daily_backoff_fields burst_check_trace burst_check_clock new_events_def)


theorem daily_limit_witness:
  "1000 \<le> daily_count (example_state\<lparr>batch_count := 100, daily_count := 1000\<rparr>)
   \<and> (\<exists>s'. sync_loop example_fmt ''/GPX/Strava'' True [] [example_ride]
              (example_state\<lparr>batch_count := 100, daily_count := 1000\<rparr>) = Returned s'
          \<and> new_events (example_state\<lparr>batch_count := 100, daily_count := 1000\<rparr>) s' =
               [(seconds 1709287200, Sleep (seconds 900)),
                (seconds 1709288100, SaveBackoff (seconds 1709337600)),
                (seconds 1709288100, Sleep (seconds 49500))]
          \<and> clock s' = seconds 1709337600
          \<and> remote_backoff s' = Some (seconds 1709337600)
          \<and> synced_ids s' = {})"
  using daily_limit_saves_marker_sleeps_and_returns[of "example_state\<lparr>batch_count := 100, daily_count := 1000\<rparr>" example_fmt
               "''/GPX/Strava''" True "[]" example_ride "[]"]
  by (simp add: example_state_def RATE_LIMIT_def SLEEP_SECONDS_def seconds_def
                next_utc_day_def usec_per_day_def Let_def)

text \<open>
  Claim C5.  A run with complete credentials loads the backoff marker first and
  only once.  If a marker was read and lies strictly in the future, the run
  sleeps until that instant; otherwise it goes on at once.  \<^verbatim>\<open>connect\<close> and every
  later call (listing, fetching, uploading) start at or after the marker's
  instant, and the marker document is never deleted.
\<close>

theorem backoff_marker_loaded_once_before_any_work:
  assumes "strava_ready config"
  shows
  "let marker = (if e_backoff_readable env then remote_backoff s else None);
       wait = (case marker of
                 None \<Rightarrow> []
               | Some until \<Rightarrow>
                   if clock s < until then [(clock s, Sleep (until - clock s))] else []);
       start = (case marker of None \<Rightarrow> clock s | Some until \<Rightarrow> max (clock s) until);
       s' = state_of (sync_activities fm config env s)
   in prefix (trace s) (trace s')
      \<and> (\<exists>evs. new_events s s' = (clock s, LoadBackoff) # wait @ (start, Connect) # evs
                \<and> list_all (\<lambda>(t, e). start \<le> t \<and> e \<noteq> LoadBackoff) evs)
      \<and> (remote_backoff s = None \<or> remote_backoff s' \<noteq> None)"
proof -
  define marker where "marker = (if e_backoff_readable env then remote_backoff s else None)"
  define wait where "wait = (case marker of
                 None \<Rightarrow> []
               | Some until \<Rightarrow>
                   if clock s < until then [(clock s, Sleep (until - clock s))] else [])"
  define start where "start = (case marker of None \<Rightarrow> clock s | Some until \<Rightarrow> max (clock s) until)"
  define s1 where "s1 = record_event LoadBackoff s"
  define s2 where "s2 = (case marker of
                    None \<Rightarrow> s1
                  | Some until \<Rightarrow> if clock s1 < until then asyncio_sleep (until - clock s1) s1 else s1)"
  define s3 where "s3 = record_event Connect s2"
  define s4 where "s4 = record_event ListActivities s3"
  have t2: "trace s2 = trace s @ (clock s, LoadBackoff) # wait" "clock s2 = start"
           "remote_backoff s2 = remote_backoff s"
    by (auto simp: s2_def s1_def wait_def start_def record_event_def asyncio_sleep_def
             split: option.splits)
  have t3: "trace s3 = trace s @ (clock s, LoadBackoff) # wait @ [(start, Connect)]"
           "clock s3 = start" "remote_backoff s3 = remote_backoff s"
    using t2 by (simp_all add: s3_def record_event_def)
  have t4: "trace s4 = trace s @ (clock s, LoadBackoff) # wait @ [(start, Connect), (start, ListActivities)]"
           "clock s4 = start" "remote_backoff s4 = remote_backoff s"
    using t3 by (simp_all add: s4_def record_event_def)
  have run: "sync_activities fm config env s =
      (case e_connect env of
             Some err \<Rightarrow> Raised (CollaboratorError err) s3
           | None \<Rightarrow>
               (case e_activities env of
                    Inl err \<Rightarrow> Raised (CollaboratorError err) s4
                  | Inr activities_list \<Rightarrow>
                      sync_loop fm (nextcloud_target_folder config) (e_backoff_accepted env)
                        (e_responses env)
                        (new_activities (synced_ids s4) activities_list)
                        (s4\<lparr>batch_count := 0, daily_count := 0\<rparr>)))"
    using assms
    unfolding s4_def s3_def s2_def s1_def marker_def
    by (auto simp: sync_activities_def load_backoff_until_def Let_def
             split: option.splits sum.splits)
  let ?s' = "state_of (sync_activities fm config env s)"
  have goal: "prefix (trace s) (trace ?s')
      \<and> (\<exists>evs. new_events s ?s' = (clock s, LoadBackoff) # wait @ (start, Connect) # evs
                \<and> list_all (\<lambda>(t, e). start \<le> t \<and> e \<noteq> LoadBackoff) evs)
      \<and> (remote_backoff s = None \<or> remote_backoff ?s' \<noteq> None)"
  proof (cases "e_connect env")
    case (Some err)
    then show ?thesis using run t3 by (auto simp: new_events_def)
  next
    case None
    show ?thesis
    proof (cases "e_activities env")
      case (Inl err)
      then show ?thesis using run None t4 by (auto simp: new_events_def)
    next
      case (Inr activities_list)
      let ?s5 = "s4\<lparr>batch_count := 0, daily_count := 0\<rparr>"
      have l: "later ?s5 ?s'"
        using run None Inr later_sync_loop[of ?s5] by simp
      obtain evs where evs: "evs = new_events ?s5 ?s'" by simp
      have tr: "trace ?s' = trace s @ (clock s, LoadBackoff) # wait
                  @ (start, Connect) # (start, ListActivities) # evs"
        using laterD[OF l] t4 evs by simp
      have ev: "list_all (\<lambda>(t, e). start \<le> t \<and> e \<noteq> LoadBackoff) evs"
        using l t4 evs unfolding later_def list_all_iff by auto
      have rb: "remote_backoff s = None \<or> remote_backoff ?s' \<noteq> None"
        using l t4 unfolding later_def by auto
      have ne: "new_events s ?s' = (clock s, LoadBackoff) # wait
                  @ (start, Connect) # (start, ListActivities) # evs"
        unfolding new_events_def by (subst tr) simp
      have pf: "prefix (trace s) (trace ?s')"
        by (subst tr) simp
      show ?thesis using ne ev rb pf by simp
    qed
  qed
  show ?thesis
    using goal unfolding Let_def marker_def wait_def start_def by simp
qed


theorem backoff_marker_witness:
  "strava_ready example_config
   \<and> new_events (example_state\<lparr>remote_backoff := Some (seconds 1709287800)\<rparr>)
        (state_of (sync_activities example_fmt example_config example_env_empty
                     (example_state\<lparr>remote_backoff := Some (seconds 1709287800)\<rparr>))) =
       [(seconds 1709287200, LoadBackoff), (seconds 1709287200, Sleep (seconds 600)),
        (seconds 1709287800, Connect), (seconds 1709287800, ListActivities)]
   \<and> remote_backoff
        (state_of (sync_activities example_fmt example_config example_env_empty
                     (example_state\<lparr>remote_backoff := Some (seconds 1709287800)\<rparr>))) =
       Some (seconds 1709287800)"
proof -
  have ready: "strava_ready example_config"
    by (simp add: strava_ready_def example_config_def truthy_def)
  show ?thesis
    using backoff_marker_loaded_once_before_any_work
            [OF ready, of example_env_empty
               "example_state\<lparr>remote_backoff := Some (seconds 1709287800)\<rparr>" example_fmt]
          ready
    by (simp add: sync_activities_def load_backoff_until_def example_env_empty_def
                  example_state_def new_activities_def record_event_def asyncio_sleep_def
                  new_events_def seconds_def Let_def)
qed

subsection \<open>The counters and the burst limit\<close>

lemma sleep_nonneg: "0 \<le> seconds SLEEP_SECONDS"
  by (simp add: seconds_def SLEEP_SECONDS_def)

lemma on_exception_counts:
  "batch_count (snd (on_exception m s)) = batch_count s"
  "daily_count (snd (on_exception m s)) = daily_count s"
  "fst (on_exception m s) \<noteq> Completed"
  by (simp_all add: on_exception_def asyncio_sleep_def record_event_def)

lemma upload_and_mark_fields:
  "batch_count (upload_and_mark tf r a g s) = batch_count s"
  "daily_count (upload_and_mark tf r a g s) = daily_count s"
  "clock (upload_and_mark tf r a g s) = clock s"
  "local_files (upload_and_mark tf r a g s) = (local_files s)(''synced_activities.json'' := None)"
  "trace (upload_and_mark tf r a g s) =
     trace s @ [(clock s, UploadGpx g (tf @ ''/'' @ remote_filename_for a)), (clock s, SaveSyncedIds)]"
  "synced_ids (upload_and_mark tf r a g s) = insert (py_str (a_id a)) (synced_ids s)"
  by (simp_all add: upload_and_mark_def upload_gpx_def save_synced_ids_def record_event_def Let_def
               split: option.splits)

lemma remove_and_count_counts:
  "batch_count (snd (remove_and_count g s)) =
     batch_count s + (if fst (remove_and_count g s) = Completed then 1 else 0)"
  "daily_count (snd (remove_and_count g s)) =
     daily_count s + (if fst (remove_and_count g s) = Completed then 1 else 0)"
  by (simp_all add: remove_and_count_def Let_def on_exception_counts record_event_def)

lemma try_activity_counts:
  "batch_count (snd (try_activity fm tf r a s)) =
     batch_count s + (if fst (try_activity fm tf r a s) = Completed then 1 else 0)"
  "daily_count (snd (try_activity fm tf r a s)) =
     daily_count s + (if fst (try_activity fm tf r a s) = Completed then 1 else 0)"
  by (simp_all add: try_activity_def Let_def on_exception_counts remove_and_count_counts
                    upload_and_mark_fields record_event_def
               split: sum.splits prod.splits)

lemma retry_activity_counts:
  "batch_count (snd (snd (retry_activity fm tf rs a s))) =
     batch_count s + (if fst (retry_activity fm tf rs a s) = Completed then 1 else 0)
   \<and> daily_count (snd (snd (retry_activity fm tf rs a s))) =
     daily_count s + (if fst (retry_activity fm tf rs a s) = Completed then 1 else 0)"
proof (induction rs arbitrary: s)
  case Nil
  show ?case by simp
next
  case (Cons r rs)
  obtain oc s' where t: "try_activity fm tf r a s = (oc, s')" by (cases "try_activity fm tf r a s")
  show ?case
    using t try_activity_counts[of fm tf r a s] Cons.IH[of s']
    by (cases oc) simp_all
qed


lemma completions_retry_activity:
  "completions (new_events s (snd (snd (retry_activity fm tf rs a s)))) =
     (if fst (retry_activity fm tf rs a s) = Completed then 1 else 0)"
  using later_retry_activity[of s fm tf rs a] retry_activity_counts[of fm tf rs a s]
  by (simp add: later_def)

lemma completions_sync_loop:
  "completions (new_events s (state_of (sync_loop fm tf b rs as s))) \<le> length as"
proof (induction as arbitrary: rs s)
  case Nil
  show ?case by (simp add: new_events_def completions_def)
next
  case (Cons a rest)
  let ?s1 = "burst_check s"
  have 1: "later s ?s1" by (rule later_burst_check)
  have d1: "daily_count ?s1 = daily_count s" by (simp add: burst_check_def asyncio_sleep_def record_event_def)
  show ?case
  proof (cases "daily_count ?s1 \<ge> 1000")
    case True
    have "later s (daily_backoff b ?s1)" by (rule later_trans[OF 1 later_daily_backoff])
    moreover have "daily_count (daily_backoff b ?s1) = daily_count s"
      using d1 by (simp add: daily_backoff_def save_backoff_until_def asyncio_sleep_def
                             record_event_def Let_def)
    ultimately show ?thesis using True by (simp add: Let_def later_def)
  next
    case False
    obtain oc rs' s2 where r: "retry_activity fm tf rs a ?s1 = (oc, rs', s2)"
      by (cases "retry_activity fm tf rs a ?s1") auto
    have 2: "later ?s1 s2" using later_retry_activity[of ?s1 fm tf rs a] r by simp
    have c2: "daily_count s2 \<le> daily_count s + 1"
      using retry_activity_counts[of fm tf rs a ?s1] r d1 by simp
    have 12: "later s s2" by (rule later_trans[OF 1 2])
    show ?thesis
    proof (cases oc)
      case Retry
      then show ?thesis using False r 12 c2 by (simp add: Let_def later_def)
    next
      case Completed
      let ?s' = "state_of (sync_loop fm tf b rs' rest s2)"
      have 3: "later s2 ?s'" by (rule later_sync_loop)
      have "later s ?s'" by (rule later_trans[OF 12 3])
      then have "completions (new_events s ?s') = daily_count ?s' - daily_count s"
        by (simp add: later_def)
      moreover have "daily_count ?s' = daily_count s2 + completions (new_events s2 ?s')"
        using 3 by (simp add: later_def)
      ultimately show ?thesis using False r Completed c2 Cons.IH[of s2 rs'] by (simp add: Let_def)
    next
      case Abandoned
      let ?s' = "state_of (sync_loop fm tf b rs' rest s2)"
      have 3: "later s2 ?s'" by (rule later_sync_loop)
      have "later s ?s'" by (rule later_trans[OF 12 3])
      then have "completions (new_events s ?s') = daily_count ?s' - daily_count s"
        by (simp add: later_def)
      moreover have "daily_count ?s' = daily_count s2 + completions (new_events s2 ?s')"
        using 3 by (simp add: later_def)
      ultimately show ?thesis using False r Abandoned c2 Cons.IH[of s2 rs'] by (simp add: Let_def)
    qed
  qed
qed

text \<open>
  Claim C10.  One pass through the per-activity block increments both counters
  by one when it runs to its end and leaves them unchanged when it ends in the
  handler (retry after a rate limit, or abandoning the activity).  Hence the
  whole \<^verbatim>\<open>while\<close> loop for a delta entry adds one to each counter when the entry
  is completed, whatever the number of retries, and nothing otherwise; over the
  \<^verbatim>\<open>for\<close> loop the daily counter grows by the number of completed passes, which is
  at most the number of delta entries.
\<close>

theorem counters_count_completed_passes:
  "(let (oc, s') = try_activity fm tf r a s
    in batch_count s' = batch_count s + (if oc = Completed then 1 else 0)
       \<and> daily_count s' = daily_count s + (if oc = Completed then 1 else 0))
   \<and> (let (oc, rs', s') = retry_activity fm tf rs a s
       in batch_count s' = batch_count s + (if oc = Completed then 1 else 0)
          \<and> daily_count s' = daily_count s + (if oc = Completed then 1 else 0)
          \<and> completions (new_events s s') = (if oc = Completed then 1 else 0))
   \<and> (let s' = state_of (sync_loop fm tf accepted rs pending s)
       in daily_count s' = daily_count s + completions (new_events s s')
          \<and> completions (new_events s s') \<le> length pending)"
  using try_activity_counts[of fm tf r a s] retry_activity_counts[of fm tf rs a s]
        completions_retry_activity[of s fm tf rs a]
        later_sync_loop[of s fm tf accepted rs pending]
        completions_sync_loop[of s fm tf accepted rs pending]
  by (auto simp: later_def Let_def split: prod.splits)


lemma write_to_gpx_creates:
  "write_to_gpx fm r i ''temp_gpx'' fs = Inr (res, fs') \<Longrightarrow> r_open_w r \<Longrightarrow>
   fs' ''temp_gpx.gpx'' \<noteq> None"
  by (auto simp: write_to_gpx_def Let_def split: sum.splits option.splits if_splits)

lemma write_to_gpx_raises:
  "write_to_gpx fm r i out fs = Inl err \<longleftrightarrow> r_activity r = Inl err"
  by (auto simp: write_to_gpx_def Let_def split: sum.splits option.splits if_splits)

lemma gpx_filename_for_exists:
  "fs ''temp_gpx.gpx'' \<noteq> None \<Longrightarrow>
   fs (gpx_filename_for fs i) \<noteq> None \<and> gpx_filename_for fs i \<noteq> ''synced_activities.json''"
  by (auto simp: gpx_filename_for_def Let_def)

lemma attempts_simps [simp]:
  "attempts [] = []" "attempts ((t, WriteGpx i) # evs) = i # attempts evs"
  "attempts ((t, Sleep d) # evs) = attempts evs"
  "attempts ((t, UploadGpx l p) # evs) = attempts evs"
  "attempts ((t, SaveSyncedIds) # evs) = attempts evs"
  "attempts ((t, RemoveFile f) # evs) = attempts evs"
  "attempts ((t, SaveBackoff d) # evs) = attempts evs"
  "attempts (xs @ ys) = attempts xs @ attempts ys"
  by (simp_all add: attempts_def)

lemma sleeps_simps [simp]:
  "sleeps [] = []" "sleeps ((t, WriteGpx i) # evs) = sleeps evs"
  "sleeps ((t, Sleep d) # evs) = d # sleeps evs"
  "sleeps ((t, UploadGpx l p) # evs) = sleeps evs"
  "sleeps ((t, SaveSyncedIds) # evs) = sleeps evs"
  "sleeps ((t, RemoveFile f) # evs) = sleeps evs"
  "sleeps ((t, SaveBackoff d) # evs) = sleeps evs"
  "sleeps (xs @ ys) = sleeps xs @ sleeps ys"
  by (simp_all add: sleeps_def)

lemma try_activity_completes:
  assumes "r_activity r = Inr d" "r_open_w r"
  shows "\<exists>s' g. try_activity fm tf r a s = (Completed, s')
          \<and> trace s' = trace s @ [(clock s, WriteGpx (a_id a)),
                                   (clock s, UploadGpx g (tf @ ''/'' @ remote_filename_for a)),
                                   (clock s, SaveSyncedIds), (clock s, RemoveFile g)]
          \<and> clock s' = clock s
          \<and> batch_count s' = batch_count s + 1 \<and> daily_count s' = daily_count s + 1"
proof -
  let ?s1 = "record_event (WriteGpx (a_id a)) s"
  obtain res fs where w: "write_to_gpx fm r (a_id a) ''temp_gpx'' (local_files ?s1) = Inr (res, fs)"
    using assms(1) write_to_gpx_raises[of fm r "a_id a" "''temp_gpx''" "local_files ?s1"]
    by (cases "write_to_gpx fm r (a_id a) ''temp_gpx'' (local_files ?s1)") auto
  let ?g = "gpx_filename_for fs (a_id a)"
  let ?s2 = "?s1\<lparr>local_files := fs\<rparr>"
  let ?s5 = "upload_and_mark tf r a ?g ?s2"
  have ex: "fs ?g \<noteq> None" "?g \<noteq> ''synced_activities.json''"
    using gpx_filename_for_exists[of fs "a_id a"] write_to_gpx_creates[OF w assms(2)] by auto
  have l5: "local_files ?s5 ?g \<noteq> None"
    using ex by (simp add: upload_and_mark_fields)
  have t: "try_activity fm tf r a s = remove_and_count ?g ?s5"
    using w by (simp add: try_activity_def Let_def)
  show ?thesis
    using l5 unfolding t
    by (auto simp: remove_and_count_def Let_def upload_and_mark_fields record_event_def)
qed

lemma sync_loop_step_completes:
  assumes "r_activity r = Inr d" "r_open_w r" "batch_count s < RATE_LIMIT" "daily_count s < 1000"
  shows "\<exists>s' g. sync_loop fm tf acc (r # rs) (a # rest) s = sync_loop fm tf acc rs rest s'
          \<and> trace s' = trace s @ [(clock s, WriteGpx (a_id a)),
                                   (clock s, UploadGpx g (tf @ ''/'' @ remote_filename_for a)),
                                   (clock s, SaveSyncedIds), (clock s, RemoveFile g)]
          \<and> clock s' = clock s
          \<and> batch_count s' = batch_count s + 1 \<and> daily_count s' = daily_count s + 1"
proof -
  obtain s' g where t: "try_activity fm tf r a s = (Completed, s')"
     "trace s' = trace s @ [(clock s, WriteGpx (a_id a)),
                                   (clock s, UploadGpx g (tf @ ''/'' @ remote_filename_for a)),
                                   (clock s, SaveSyncedIds), (clock s, RemoveFile g)]"
     "clock s' = clock s" "batch_count s' = batch_count s + 1" "daily_count s' = daily_count s + 1"
    using try_activity_completes[OF assms(1,2), of fm tf a s] by blast
  have b: "burst_check s = s" using assms(3) by (simp add: burst_check_def)
  have "sync_loop fm tf acc (r # rs) (a # rest) s = sync_loop fm tf acc rs rest s'"
    using b assms(4) t(1) by (simp add: Let_def)
  then show ?thesis using t by blast
qed

lemma no_errors_D: "no_errors r \<Longrightarrow> (\<exists>d. r_activity r = Inr d) \<and> r_open_w r"
  by (auto simp: no_errors_def split: sum.splits)

lemma clean_prefix:
  assumes "list_all no_errors (take (length as) rs)" "length as \<le> length rs"
          "batch_count s + length as \<le> RATE_LIMIT" "daily_count s + length as \<le> 1000"
  shows "\<exists>s' evs. sync_loop fm tf acc rs (as @ rest) s
                    = sync_loop fm tf acc (drop (length as) rs) rest s'
          \<and> trace s' = trace s @ evs \<and> attempts evs = map a_id as \<and> sleeps evs = []
          \<and> clock s' = clock s
          \<and> batch_count s' = batch_count s + length as
          \<and> daily_count s' = daily_count s + length as"
  using assms
proof (induction as arbitrary: rs s)
  case Nil
  show ?case by (intro exI[of _ s] exI[of _ "[]"]) simp
next
  case (Cons a as)
  obtain r rs' where rs: "rs = r # rs'" using Cons.prems(2) by (cases rs) auto
  have ne: "no_errors r" "list_all no_errors (take (length as) rs')" "length as \<le> length rs'"
    using Cons.prems(1,2) rs by auto
  obtain d where d: "r_activity r = Inr d" "r_open_w r" using no_errors_D[OF ne(1)] by blast
  have lt: "batch_count s < RATE_LIMIT" "daily_count s < 1000" using Cons.prems(3,4) by auto
  obtain s1 g where s1: "sync_loop fm tf acc (r # rs') (a # (as @ rest)) s = sync_loop fm tf acc rs' (as @ rest) s1"
     "trace s1 = trace s @ [(clock s, WriteGpx (a_id a)),
                                   (clock s, UploadGpx g (tf @ ''/'' @ remote_filename_for a)),
                                   (clock s, SaveSyncedIds), (clock s, RemoveFile g)]"
     "clock s1 = clock s" "batch_count s1 = batch_count s + 1" "daily_count s1 = daily_count s + 1"
    using sync_loop_step_completes[OF d lt, of fm tf acc rs' a "as @ rest"] by blast
  have p: "batch_count s1 + length as \<le> RATE_LIMIT" "daily_count s1 + length as \<le> 1000"
    using Cons.prems(3,4) s1 by auto
  obtain s' evs where IH: "sync_loop fm tf acc rs' (as @ rest) s1
                    = sync_loop fm tf acc (drop (length as) rs') rest s'"
          "trace s' = trace s1 @ evs" "attempts evs = map a_id as" "sleeps evs = []"
          "clock s' = clock s1"
          "batch_count s' = batch_count s1 + length as"
          "daily_count s' = daily_count s1 + length as"
    using Cons.IH[OF ne(2,3) p] by blast
  show ?case
    apply (intro exI[of _ s'] exI[of _ "[(clock s, WriteGpx (a_id a)),
                                   (clock s, UploadGpx g (tf @ ''/'' @ remote_filename_for a)),
                                   (clock s, SaveSyncedIds), (clock s, RemoveFile g)] @ evs"])
    using IH s1 rs by simp
qed


lemma try_activity_first_event:
  "\<exists>evs. trace (snd (try_activity fm tf r a s)) = trace s @ (clock s, WriteGpx (a_id a)) # evs"
proof -
  let ?s1 = "record_event (WriteGpx (a_id a)) s"
  have t1: "trace ?s1 = trace s @ [(clock s, WriteGpx (a_id a))]" by (simp add: record_event_def)
  have "later ?s1 (snd (try_activity fm tf r a s))"
  proof (cases "write_to_gpx fm r (a_id a) ''temp_gpx'' (local_files ?s1)")
    case (Inl err)
    then show ?thesis
      using later_on_exception[where m=err and s="?s1"] by (simp add: try_activity_def Let_def)
  next
    case (Inr p)
    obtain res fs where p: "p = (res, fs)" by (cases p)
    let ?g = "gpx_filename_for fs (a_id a)"
    let ?s2 = "?s1\<lparr>local_files := fs\<rparr>"
    have 2: "later ?s1 ?s2" by (simp add: later_refl)
    have 3: "later ?s1 (upload_and_mark tf r a ?g ?s2)"
      by (rule later_trans[OF 2 later_upload_and_mark])
    show ?thesis
      using Inr p later_trans[OF 3 later_remove_and_count]
      by (simp add: try_activity_def Let_def)
  qed
  from laterD[OF this] show ?thesis using t1 by simp
qed

lemma retry_activity_first_event:
  "\<exists>evs. trace (snd (snd (retry_activity fm tf (r # rs) a s)))
          = trace s @ (clock s, WriteGpx (a_id a)) # evs"
proof -
  obtain oc s' where t: "try_activity fm tf r a s = (oc, s')" by (cases "try_activity fm tf r a s")
  obtain evs where e: "trace s' = trace s @ (clock s, WriteGpx (a_id a)) # evs"
    using try_activity_first_event[of fm tf r a s] t by auto
  show ?thesis
  proof (cases oc)
    case Retry
    have "later s' (snd (snd (retry_activity fm tf rs a s')))" by (rule later_retry_activity)
    from laterD[OF this] show ?thesis using t Retry e by simp
  qed (use t e in auto)
qed

lemma sync_loop_first_attempt:
  assumes "batch_count s < RATE_LIMIT" "daily_count s < 1000"
  shows "\<exists>evs. trace (state_of (sync_loop fm tf acc (r # rs) (a # rest) s))
          = trace s @ (clock s, WriteGpx (a_id a)) # evs"
proof -
  have b: "burst_check s = s" using assms(1) by (simp add: burst_check_def)
  obtain oc rs' s2 where r: "retry_activity fm tf (r # rs) a s = (oc, rs', s2)"
    by (cases "retry_activity fm tf (r # rs) a s") auto
  obtain evs where e: "trace s2 = trace s @ (clock s, WriteGpx (a_id a)) # evs"
    using retry_activity_first_event[of fm tf r rs a s] r by auto
  have l: "later s2 (state_of (sync_loop fm tf acc rs' rest s2))" by (rule later_sync_loop)
  show ?thesis
    using b assms(2) r e laterD[OF l]
    by (cases oc) (simp_all add: Let_def del: retry_activity.simps)
qed

lemma burst_check_cools:
  assumes "RATE_LIMIT \<le> batch_count s"
  shows "burst_check s = (asyncio_sleep (seconds SLEEP_SECONDS) s)\<lparr>batch_count := 0\<rparr>"
        "burst_check (burst_check s) = burst_check s"
        "trace (burst_check s) = trace s @ [(clock s, Sleep (seconds SLEEP_SECONDS))]"
        "clock (burst_check s) = clock s + seconds SLEEP_SECONDS"
        "batch_count (burst_check s) = 0" "daily_count (burst_check s) = daily_count s"
  using assms sleep_nonneg
  by (simp_all add: burst_check_def RATE_LIMIT_def asyncio_sleep_def record_event_def)

lemma sync_loop_burst:
  "sync_loop fm tf acc rs (a # rest) s = sync_loop fm tf acc rs (a # rest) (burst_check s)"
proof (cases "RATE_LIMIT \<le> batch_count s")
  case True
  show ?thesis using burst_check_cools(2)[OF True] by (simp add: Let_def)
next
  case False
  then show ?thesis by (simp add: burst_check_def)
qed

lemma cooldown_first:
  assumes "RATE_LIMIT \<le> batch_count s"
  shows "sync_loop fm tf acc rs (a # rest) s =
           sync_loop fm tf acc rs (a # rest)
             ((asyncio_sleep (seconds SLEEP_SECONDS) s)\<lparr>batch_count := 0\<rparr>)"
    and "\<exists>evs. new_events s (state_of (sync_loop fm tf acc rs (a # rest) s)) =
                 (clock s, Sleep (seconds SLEEP_SECONDS)) # evs"
    and "daily_count s < 1000 \<Longrightarrow> rs \<noteq> [] \<Longrightarrow>
         \<exists>evs. new_events s (state_of (sync_loop fm tf acc rs (a # rest) s)) =
                 (clock s, Sleep (seconds SLEEP_SECONDS))
                 # (clock s + seconds SLEEP_SECONDS, WriteGpx (a_id a)) # evs"
proof -
  let ?X = "burst_check s"
  note bc = burst_check_cools[OF assms]
  show 1: "sync_loop fm tf acc rs (a # rest) s =
           sync_loop fm tf acc rs (a # rest)
             ((asyncio_sleep (seconds SLEEP_SECONDS) s)\<lparr>batch_count := 0\<rparr>)"
    using sync_loop_burst[of fm tf acc rs a rest s] bc(1) by simp
  have l: "later ?X (state_of (sync_loop fm tf acc rs (a # rest) ?X))" by (rule later_sync_loop)
  obtain evs where "trace (state_of (sync_loop fm tf acc rs (a # rest) s))
                      = trace s @ (clock s, Sleep (seconds SLEEP_SECONDS)) # evs"
    using laterD[OF l] bc(3) sync_loop_burst[of fm tf acc rs a rest s] by simp
  then show "\<exists>evs. new_events s (state_of (sync_loop fm tf acc rs (a # rest) s)) =
                 (clock s, Sleep (seconds SLEEP_SECONDS)) # evs"
    by (simp add: new_events_def)
  assume d: "daily_count s < 1000" "rs \<noteq> []"
  obtain r rs' where rs: "rs = r # rs'" using d(2) by (cases rs) auto
  have "batch_count ?X < RATE_LIMIT" "daily_count ?X < 1000"
    using bc d by (simp_all add: RATE_LIMIT_def)
  from sync_loop_first_attempt[OF this, of fm tf acc r rs' a rest]
  obtain evs where "trace (state_of (sync_loop fm tf acc rs (a # rest) s))
          = trace s @ (clock s, Sleep (seconds SLEEP_SECONDS))
              # (clock s + seconds SLEEP_SECONDS, WriteGpx (a_id a)) # evs"
    using rs bc sync_loop_burst[of fm tf acc rs a rest s] by auto
  then show "\<exists>evs. new_events s (state_of (sync_loop fm tf acc rs (a # rest) s)) =
                 (clock s, Sleep (seconds SLEEP_SECONDS))
                 # (clock s + seconds SLEEP_SECONDS, WriteGpx (a_id a)) # evs"
    by (simp add: new_events_def)
qed

lemma cooldown_before_101st:
  assumes "batch_count s = 0" "daily_count s = 0" "101 \<le> length pending" "101 \<le> length rs"
          "list_all no_errors (take 101 rs)"
  shows "\<exists>pre post. new_events s (state_of (sync_loop fm tf acc rs pending s)) =
            pre @ (clock s, Sleep (seconds SLEEP_SECONDS))
                # (clock s + seconds SLEEP_SECONDS, WriteGpx (a_id (pending ! 100))) # post
          \<and> attempts pre = map a_id (take 100 pending) \<and> sleeps pre = []"
proof -
  let ?as = "take 100 pending" and ?a = "pending ! 100" and ?rest = "drop 101 pending"
  have pend: "pending = ?as @ ?a # ?rest"
    using assms(3) id_take_nth_drop[of 100 pending] by simp
  have len: "length ?as = 100" using assms(3) by simp
  have "take 100 rs = take 100 (take 101 rs)" by simp
  then have "set (take 100 rs) \<subseteq> set (take 101 rs)" by (metis set_take_subset)
  then have ne: "list_all no_errors (take (length ?as) rs)"
    using assms(5) len unfolding list_all_iff by auto
  obtain s1 evs where s1: "sync_loop fm tf acc rs (?as @ ?a # ?rest) s
                    = sync_loop fm tf acc (drop (length ?as) rs) (?a # ?rest) s1"
          "trace s1 = trace s @ evs" "attempts evs = map a_id ?as" "sleeps evs = []"
          "clock s1 = clock s"
          "batch_count s1 = batch_count s + length ?as"
          "daily_count s1 = daily_count s + length ?as"
    using clean_prefix[OF ne, of s fm tf acc "?a # ?rest"] assms(1,2,4) len
    by (auto simp: RATE_LIMIT_def)
  have b1: "RATE_LIMIT \<le> batch_count s1" "daily_count s1 < 1000" "drop (length ?as) rs \<noteq> []"
    using s1 assms(1,2,4) len by (simp_all add: RATE_LIMIT_def)
  obtain post where "new_events s1 (state_of (sync_loop fm tf acc (drop (length ?as) rs) (?a # ?rest) s1)) =
                 (clock s1, Sleep (seconds SLEEP_SECONDS))
                 # (clock s1 + seconds SLEEP_SECONDS, WriteGpx (a_id ?a)) # post"
    using cooldown_first(3)[OF b1] by blast
  moreover have "later s1 (state_of (sync_loop fm tf acc (drop (length ?as) rs) (?a # ?rest) s1))"
    by (rule later_sync_loop)
  ultimately have "trace (state_of (sync_loop fm tf acc rs pending s)) =
      trace s @ evs @ (clock s, Sleep (seconds SLEEP_SECONDS))
                 # (clock s + seconds SLEEP_SECONDS, WriteGpx (a_id ?a)) # post"
    using laterD s1(1,2,5) pend by (metis append.assoc)
  then have "new_events s (state_of (sync_loop fm tf acc rs pending s)) =
      evs @ (clock s, Sleep (seconds SLEEP_SECONDS))
                 # (clock s + seconds SLEEP_SECONDS, WriteGpx (a_id ?a)) # post"
    by (simp add: new_events_def)
  then show ?thesis using s1(3,4) by blast
qed


lemma py_str_42: "py_str 42 = ''42''"
  by code_simp

lemma example_ride_fields:
  "a_id example_ride = 42" "a_name example_ride = ''Morning Run/2''"
  "a_start_date example_ride = ''2024-03-01T10:00:00Z''"
  by (simp_all add: example_ride_def)

lemma example_responses_fields:
  "r_activity example_responses = Inr example_activity" "r_open_w example_responses"
  "r_streams example_responses = Inr example_streams" "r_open_a example_responses"
  "r_upload_gpx example_responses" "r_upload_state example_responses"
  by (simp_all add: example_responses_def)

lemma no_errors_example: "no_errors example_responses"
  by (simp add: no_errors_def example_responses_def)

lemma rate_limit_too_many_requests: "is_rate_limit too_many_requests"
  by (simp add: is_rate_limit_def too_many_requests_def)

theorem counters_witness:
  "fst (retry_activity example_fmt ''/GPX/Strava''
          [example_responses\<lparr>r_activity := Inl too_many_requests\<rparr>, example_responses]
          example_ride example_state) = Completed
   \<and> daily_count (snd (snd (retry_activity example_fmt ''/GPX/Strava''
          [example_responses\<lparr>r_activity := Inl too_many_requests\<rparr>, example_responses]
          example_ride example_state))) = 1
   \<and> batch_count (snd (snd (retry_activity example_fmt ''/GPX/Strava''
          [example_responses\<lparr>r_activity := Inl too_many_requests\<rparr>, example_responses]
          example_ride example_state))) = 1
   \<and> fst (try_activity example_fmt ''/GPX/Strava''
          (example_responses\<lparr>r_activity := Inl too_many_requests\<rparr>)
          example_ride example_state) = Retry
   \<and> daily_count (snd (try_activity example_fmt ''/GPX/Strava''
          (example_responses\<lparr>r_activity := Inl too_many_requests\<rparr>)
          example_ride example_state)) = 0"
proof -
  let ?r = "example_responses\<lparr>r_activity := Inl too_many_requests\<rparr>"
  let ?s1 = "asyncio_sleep (seconds SLEEP_SECONDS) (record_event (WriteGpx 42) example_state)"
  have 1: "try_activity example_fmt ''/GPX/Strava'' ?r example_ride example_state = (Retry, ?s1)"
    by (simp add: try_activity_def write_to_gpx_def on_exception_def rate_limit_too_many_requests
                  example_ride_fields Let_def)
  obtain s2 where 2: "try_activity example_fmt ''/GPX/Strava'' example_responses example_ride ?s1
                        = (Completed, s2)"
    using try_activity_completes[OF example_responses_fields(1,2)] by blast
  have 3: "fst (retry_activity example_fmt ''/GPX/Strava'' [?r, example_responses]
                  example_ride example_state) = Completed"
    using 1 2 by simp
  have 0: "daily_count example_state = 0" "batch_count example_state = 0"
    by (simp_all add: example_state_def)
  show ?thesis
    using counters_count_completed_passes
            [of example_fmt "''/GPX/Strava''" ?r example_ride example_state
                "[?r, example_responses]" True "[]"]
          1 3 0
    by (simp add: Let_def split: prod.splits)
qed

text \<open>
  Claim C6.  At the top of the loop body for a delta entry, a burst counter that
  has reached 100 makes the run sleep 15 minutes and reset the counter before
  the entry is attempted.  Hence in a run with at least 101 delta entries and
  no errors, that starts with both counters at 0, the first 100 attempts are
  made without any sleep and the attempt for the 101st entry comes directly
  after a 15-minute sleep.
\<close>

theorem burst_cooldown_precedes_next_attempt:
  "(RATE_LIMIT \<le> batch_count s \<longrightarrow>
      sync_loop fm tf acc rs (a # rest) s =
        sync_loop fm tf acc rs (a # rest)
          ((asyncio_sleep (seconds SLEEP_SECONDS) s)\<lparr>batch_count := 0\<rparr>)
      \<and> (\<exists>evs. new_events s (state_of (sync_loop fm tf acc rs (a # rest) s)) =
                  (clock s, Sleep (seconds SLEEP_SECONDS)) # evs)
      \<and> (daily_count s < 1000 \<and> rs \<noteq> [] \<longrightarrow>
            (\<exists>evs. new_events s (state_of (sync_loop fm tf acc rs (a # rest) s)) =
                     (clock s, Sleep (seconds SLEEP_SECONDS))
                     # (clock s + seconds SLEEP_SECONDS, WriteGpx (a_id a)) # evs)))
   \<and> (batch_count s0 = 0 \<and> daily_count s0 = 0 \<and> 101 \<le> length pending \<and> 101 \<le> length script
        \<and> list_all no_errors (take 101 script) \<longrightarrow>
         (\<exists>pre post. new_events s0 (state_of (sync_loop fm tf acc script pending s0)) =
                        pre @ (clock s0, Sleep (seconds SLEEP_SECONDS))
                            # (clock s0 + seconds SLEEP_SECONDS, WriteGpx (a_id (pending ! 100)))
                            # post
                      \<and> attempts pre = map a_id (take 100 pending) \<and> sleeps pre = []))
   \<and> RATE_LIMIT = 100 \<and> seconds SLEEP_SECONDS = 15 * 60 * 1000000"
proof (intro conjI impI)
  assume b: "RATE_LIMIT \<le> batch_count s"
  show "sync_loop fm tf acc rs (a # rest) s =
        sync_loop fm tf acc rs (a # rest)
          ((asyncio_sleep (seconds SLEEP_SECONDS) s)\<lparr>batch_count := 0\<rparr>)"
    by (rule cooldown_first(1)[OF b])
  show "\<exists>evs. new_events s (state_of (sync_loop fm tf acc rs (a # rest) s)) =
                  (clock s, Sleep (seconds SLEEP_SECONDS)) # evs"
    by (rule cooldown_first(2)[OF b])
  assume "daily_count s < 1000 \<and> rs \<noteq> []"
  then show "\<exists>evs. new_events s (state_of (sync_loop fm tf acc rs (a # rest) s)) =
                     (clock s, Sleep (seconds SLEEP_SECONDS))
                     # (clock s + seconds SLEEP_SECONDS, WriteGpx (a_id a)) # evs"
    using cooldown_first(3)[OF b] by blast
next
  assume "batch_count s0 = 0 \<and> daily_count s0 = 0 \<and> 101 \<le> length pending
          \<and> 101 \<le> length script \<and> list_all no_errors (take 101 script)"
  then show "\<exists>pre post. new_events s0 (state_of (sync_loop fm tf acc script pending s0)) =
                        pre @ (clock s0, Sleep (seconds SLEEP_SECONDS))
                            # (clock s0 + seconds SLEEP_SECONDS, WriteGpx (a_id (pending ! 100)))
                            # post
                      \<and> attempts pre = map a_id (take 100 pending) \<and> sleeps pre = []"
    using cooldown_before_101st[where s=s0 and pending=pending and rs=script] by blast
next
  show "RATE_LIMIT = 100" by (simp add: RATE_LIMIT_def)
  show "seconds SLEEP_SECONDS = 15 * 60 * 1000000"
    by (simp add: SLEEP_SECONDS_def seconds_def)
qed

theorem burst_cooldown_witness:
  "RATE_LIMIT \<le> batch_count (example_state\<lparr>batch_count := 100\<rparr>)
   \<and> daily_count (example_state\<lparr>batch_count := 100\<rparr>) < 1000
   \<and> (\<exists>evs. new_events (example_state\<lparr>batch_count := 100\<rparr>)
               (state_of (sync_loop example_fmt ''/GPX/Strava'' True [example_responses]
                            [example_ride] (example_state\<lparr>batch_count := 100\<rparr>))) =
             (seconds 1709287200, Sleep (seconds 900))
             # (seconds 1709288100, WriteGpx 42) # evs)
   \<and> batch_count example_state = 0 \<and> daily_count example_state = 0
   \<and> length (map (\<lambda>i. example_ride\<lparr>a_id := int i\<rparr>) [1..<102]) = 101
   \<and> list_all no_errors (take 101 (replicate 101 example_responses))
   \<and> (\<exists>pre post.
         new_events example_state
           (state_of (sync_loop example_fmt ''/GPX/Strava'' True (replicate 101 example_responses)
                        (map (\<lambda>i. example_ride\<lparr>a_id := int i\<rparr>) [1..<102]) example_state)) =
         pre @ (seconds 1709287200, Sleep (seconds 900))
             # (seconds 1709288100,
                WriteGpx (a_id (map (\<lambda>i. example_ride\<lparr>a_id := int i\<rparr>) [1..<102] ! 100)))
             # post
         \<and> attempts pre = map a_id (take 100 (map (\<lambda>i. example_ride\<lparr>a_id := int i\<rparr>) [1..<102]))
         \<and> sleeps pre = [])"
proof -
  let ?sA = "example_state\<lparr>batch_count := 100\<rparr>"
  let ?pending = "map (\<lambda>i. example_ride\<lparr>a_id := int i\<rparr>) [1..<102]"
  let ?script = "replicate 101 example_responses"
  note T = burst_cooldown_precedes_next_attempt
            [where s="?sA" and fm=example_fmt
               and tf="''/GPX/Strava''" and acc=True and rs="[example_responses]"
               and a=example_ride and rest="[]" and ?s0.0=example_state
               and pending="?pending" and script="?script"]
  have hA: "RATE_LIMIT \<le> batch_count ?sA" by (simp add: RATE_LIMIT_def)
  have dA: "daily_count ?sA < 1000" by (simp add: example_state_def)
  have cA: "clock ?sA = seconds 1709287200" "clock example_state = seconds 1709287200"
    by (simp_all add: example_state_def)
  have sl: "seconds SLEEP_SECONDS = seconds 900"
           "seconds 1709287200 + seconds 900 = seconds 1709288100"
    by (simp_all add: seconds_def SLEEP_SECONDS_def)
  have "\<exists>evs. new_events ?sA
               (state_of (sync_loop example_fmt ''/GPX/Strava'' True [example_responses]
                            [example_ride] ?sA)) =
             (clock ?sA, Sleep (seconds SLEEP_SECONDS))
             # (clock ?sA + seconds SLEEP_SECONDS, WriteGpx (a_id example_ride)) # evs"
    using T hA dA by blast
  then have A: "\<exists>evs. new_events ?sA
               (state_of (sync_loop example_fmt ''/GPX/Strava'' True [example_responses]
                            [example_ride] ?sA)) =
             (seconds 1709287200, Sleep (seconds 900))
             # (seconds 1709288100, WriteGpx 42) # evs"
    by (simp only: cA sl example_ride_fields)
  have c0: "batch_count example_state = 0" "daily_count example_state = 0"
    by (simp_all add: example_state_def)
  have len: "length ?pending = 101" "101 \<le> length ?script" "101 \<le> length ?pending"
    by simp_all
  have h: "list_all no_errors (take 101 ?script)"
    by (simp add: list_all_iff no_errors_example)
  have "\<exists>pre post.
         new_events example_state
           (state_of (sync_loop example_fmt ''/GPX/Strava'' True ?script ?pending example_state)) =
         pre @ (clock example_state, Sleep (seconds SLEEP_SECONDS))
             # (clock example_state + seconds SLEEP_SECONDS, WriteGpx (a_id (?pending ! 100)))
             # post
         \<and> attempts pre = map a_id (take 100 ?pending) \<and> sleeps pre = []"
    using T c0 len(2,3) h by blast
  then have B: "\<exists>pre post.
         new_events example_state
           (state_of (sync_loop example_fmt ''/GPX/Strava'' True ?script ?pending example_state)) =
         pre @ (seconds 1709287200, Sleep (seconds 900))
             # (seconds 1709288100, WriteGpx (a_id (?pending ! 100)))
             # post
         \<and> attempts pre = map a_id (take 100 ?pending) \<and> sleeps pre = []"
    by (simp only: cA sl)
  show ?thesis using hA dA A c0 len(1) h B by blast
qed

subsection \<open>Exceptions that do not reach the synchroniser\<close>

lemma sync_activities_loop:
  assumes "strava_ready config" "e_connect env = None" "e_activities env = Inr activities_list"
  shows "sync_activities fm config env s =
           sync_loop fm (nextcloud_target_folder config) (e_backoff_accepted env) (e_responses env)
             (new_activities (synced_ids s) activities_list) (before_loop env s)"
  using assms
  by (auto simp: sync_activities_def before_loop_def load_backoff_until_def Let_def
                 record_event_def asyncio_sleep_def split: option.splits)

lemma before_loop_fields:
  "synced_ids (before_loop env s) = synced_ids s"
  "local_files (before_loop env s) = local_files s"
  "remote_files (before_loop env s) = remote_files s"
  "remote_synced (before_loop env s) = remote_synced s"
  "remote_backoff (before_loop env s) = remote_backoff s"
  "batch_count (before_loop env s) = 0" "daily_count (before_loop env s) = 0"
  by (auto simp: before_loop_def load_backoff_until_def Let_def
                 record_event_def asyncio_sleep_def split: option.splits)

lemma new_activities_single:
  "py_str (a_id a) \<notin> S \<Longrightarrow> new_activities S [a] = [a]"
  by (simp add: new_activities_def)

lemma upload_and_mark_remote:
  "remote_synced (upload_and_mark tf r a g s) =
     (if r_upload_state r then Some (insert (py_str (a_id a)) (synced_ids s)) else remote_synced s)"
  "remote_files (upload_and_mark tf r a g s) =
     (case local_files s g of
        None \<Rightarrow> remote_files s
      | Some content \<Rightarrow>
          if r_upload_gpx r then (remote_files s)(tf @ ''/'' @ remote_filename_for a \<mapsto> content)
          else remote_files s)"
  by (simp_all add: upload_and_mark_def upload_gpx_def save_synced_ids_def record_event_def Let_def
               split: option.splits)

lemma remove_and_count_keeps:
  "synced_ids (snd (remove_and_count g s)) = synced_ids s"
  "remote_synced (snd (remove_and_count g s)) = remote_synced s"
  "remote_files (snd (remove_and_count g s)) = remote_files s"
  by (simp_all add: remove_and_count_def on_exception_def asyncio_sleep_def record_event_def Let_def)

lemma try_activity_returned:
  assumes w: "write_to_gpx fm r (a_id a) ''temp_gpx'' (local_files s) = Inr (res, fs)"
  shows "synced_ids (snd (try_activity fm tf r a s)) = insert (py_str (a_id a)) (synced_ids s)"
    and "remote_synced (snd (try_activity fm tf r a s)) =
           (if r_upload_state r then Some (insert (py_str (a_id a)) (synced_ids s))
            else remote_synced s)"
    and "remote_files (snd (try_activity fm tf r a s)) =
           (case fs (gpx_filename_for fs (a_id a)) of
              None \<Rightarrow> remote_files s
            | Some content \<Rightarrow>
                if r_upload_gpx r
                then (remote_files s)(tf @ ''/'' @ remote_filename_for a \<mapsto> content)
                else remote_files s)"
  using w
  by (simp_all add: try_activity_def Let_def record_event_def remove_and_count_keeps
                    upload_and_mark_remote upload_and_mark_fields
               split: option.splits)

lemma sync_loop_single_completed:
  assumes "try_activity fm tf r a s = (Completed, s')" "batch_count s < RATE_LIMIT" "daily_count s < 1000"
  shows "sync_loop fm tf acc [r] [a] s = Returned s'"
  using assms by (simp add: burst_check_def Let_def)

lemma run_single_entry:
  assumes "strava_ready config" "e_connect env = None" "e_activities env = Inr [a]"
          "py_str (a_id a) \<notin> synced_ids s" "e_responses env = [r]"
          "try_activity fm (nextcloud_target_folder config) r a (before_loop env s) = (Completed, s')"
  shows "sync_activities fm config env s = Returned s'"
  using sync_activities_loop[OF assms(1,2,3), of fm s] assms(4,5)
        sync_loop_single_completed[OF assms(6), of "e_backoff_accepted env"]
  by (simp add: new_activities_single before_loop_fields RATE_LIMIT_def)


lemma write_to_gpx_other_files:
  "write_to_gpx fm r i out fs = Inr (res, fs') \<Longrightarrow> p \<noteq> out @ ''.gpx'' \<Longrightarrow> fs' p = fs p"
  by (auto simp: write_to_gpx_def Let_def split: sum.splits option.splits if_splits)

lemma write_to_gpx_returns:
  assumes "r_activity r = Inr d"
  obtains res fs' where "write_to_gpx fm r i out fs = Inr (res, fs')"
  using assms write_to_gpx_raises[of fm r i out fs]
  by (cases "write_to_gpx fm r i out fs") auto

text \<open>
  Claim C1 says that an identifier is added to the synced set, and saved, only
  after the upload of its track log has succeeded.  The code does not do that:
  \<^verbatim>\<open>upload_gpx\<close> logs a failed upload and returns normally, so lines 99 to 101
  run all the same.  In a run whose only new activity cannot be uploaded the
  Nextcloud folder is unchanged, and yet the identifier is in the synced set and
  in the state document that Nextcloud accepted.
\<close>

theorem failed_upload_is_marked_synced:
  assumes "strava_ready config" "e_connect env = None" "e_activities env = Inr [a]"
          "py_str (a_id a) \<notin> synced_ids s" "e_responses env = [r]"
          "r_activity r = Inr d" "r_open_w r" "\<not> r_upload_gpx r"
  shows "\<exists>s'. sync_activities fm config env s = Returned s'
           \<and> remote_files s' = remote_files s
           \<and> py_str (a_id a) \<in> synced_ids s'
           \<and> remote_synced s' =
               (if r_upload_state r then Some (insert (py_str (a_id a)) (synced_ids s))
                else remote_synced s)"
proof -
  let ?s0 = "before_loop env s" and ?tf = "nextcloud_target_folder config"
  obtain s' where t: "try_activity fm ?tf r a ?s0 = (Completed, s')"
    using try_activity_completes[OF assms(6,7), of fm ?tf a ?s0] by blast
  obtain res fs where w: "write_to_gpx fm r (a_id a) ''temp_gpx'' (local_files ?s0) = Inr (res, fs)"
    using write_to_gpx_returns[OF assms(6)] by blast
  have run: "sync_activities fm config env s = Returned s'"
    by (rule run_single_entry[OF assms(1-5) t])
  show ?thesis
    using run t try_activity_returned[OF w, of ?tf] assms(8)
    by (simp add: before_loop_fields split: option.splits)
qed

text \<open>
  Claim C2 says that an activity whose position and time streams differ in size
  is not marked synced.  The code does not do that: \<^verbatim>\<open>write_to_gpx\<close> prints the
  error and returns normally, after it has written a file with header and
  footer only.  The run then uploads that file, without a track point, adds the
  identifier to the synced set and saves it.  (No exception escapes and the run
  goes on, as the claim says.)
\<close>

theorem size_mismatch_is_marked_synced:
  assumes "strava_ready config" "e_connect env = None" "e_activities env = Inr [a]"
          "py_str (a_id a) \<notin> synced_ids s" "e_responses env = [r]"
          "r_activity r = Inr d" "r_open_w r" "r_streams r = Inr ds"
          "ds_latlng ds = Some latlng" "ds_time ds = Some time"
          "original_size latlng \<noteq> original_size time"
          "r_upload_gpx r" "local_files s (''temp_gpx_'' @ py_str (a_id a) @ ''.gpx'') = None"
  shows "write_to_gpx fm r (a_id a) ''temp_gpx'' (local_files s) =
           Inr (GpxSizeMismatch, (local_files s)(''temp_gpx.gpx'' \<mapsto> gpx_header d @ gpx_footer))
         \<and> (\<exists>s'. sync_activities fm config env s = Returned s'
                \<and> py_str (a_id a) \<in> synced_ids s'
                \<and> remote_synced s' =
                    (if r_upload_state r then Some (insert (py_str (a_id a)) (synced_ids s))
                     else remote_synced s)
                \<and> remote_files s' =
                    (remote_files s)(nextcloud_target_folder config @ ''/'' @ remote_filename_for a
                                      \<mapsto> gpx_header d @ gpx_footer))"
proof -
  let ?s0 = "before_loop env s" and ?tf = "nextcloud_target_folder config"
  let ?fs = "(local_files s)(''temp_gpx.gpx'' \<mapsto> gpx_header d @ gpx_footer)"
  have w: "write_to_gpx fm r (a_id a) ''temp_gpx'' (local_files s) = Inr (GpxSizeMismatch, ?fs)"
    using assms(6-11) by (simp add: write_to_gpx_def Let_def)
  then have w0: "write_to_gpx fm r (a_id a) ''temp_gpx'' (local_files ?s0) = Inr (GpxSizeMismatch, ?fs)"
    by (simp add: before_loop_fields)
  have g: "gpx_filename_for ?fs (a_id a) = ''temp_gpx.gpx''"
    using assms(13) by (simp add: gpx_filename_for_def Let_def)
  obtain s' where t: "try_activity fm ?tf r a ?s0 = (Completed, s')"
    using try_activity_completes[OF assms(6,7), of fm ?tf a ?s0] by blast
  have run: "sync_activities fm config env s = Returned s'"
    by (rule run_single_entry[OF assms(1-5) t])
  show ?thesis
    using w run t try_activity_returned[OF w0, of ?tf] assms(12) g
    by (simp add: before_loop_fields)
qed

text \<open>
  Claim C7 says that a rate-limit error of any step of the per-activity block
  makes the run sleep 15 minutes and retry the same activity.  The handler of
  lines 106 to 114 does so for the exceptions that reach it, but \<^verbatim>\<open>write_to_gpx\<close>
  prints every exception raised after its first request: when the request for
  the streams fails with status 429, the run makes one attempt, does not sleep,
  and marks the activity synced.
\<close>

theorem swallowed_rate_limit_is_not_retried:
  assumes "strava_ready config" "e_connect env = None" "e_activities env = Inr [a]"
          "py_str (a_id a) \<notin> synced_ids s" "e_responses env = [r]"
          "r_activity r = Inr d" "r_open_w r" "r_streams r = Inl err" "is_rate_limit err"
  shows "\<exists>s'. sync_activities fm config env s = Returned s'
           \<and> attempts (new_events (before_loop env s) s') = [a_id a]
           \<and> sleeps (new_events (before_loop env s) s') = []
           \<and> py_str (a_id a) \<in> synced_ids s'"
proof -
  let ?s0 = "before_loop env s" and ?tf = "nextcloud_target_folder config"
  obtain s' g where t: "try_activity fm ?tf r a ?s0 = (Completed, s')"
      "trace s' = trace ?s0 @ [(clock ?s0, WriteGpx (a_id a)),
                               (clock ?s0, UploadGpx g (?tf @ ''/'' @ remote_filename_for a)),
                               (clock ?s0, SaveSyncedIds), (clock ?s0, RemoveFile g)]"
    using try_activity_completes[OF assms(6,7), of fm ?tf a ?s0] by blast
  obtain res fs where w: "write_to_gpx fm r (a_id a) ''temp_gpx'' (local_files ?s0) = Inr (res, fs)"
    using write_to_gpx_returns[OF assms(6)] by blast
  have run: "sync_activities fm config env s = Returned s'"
    by (rule run_single_entry[OF assms(1-5) t(1)])
  show ?thesis
    using run t try_activity_returned(1)[OF w, of ?tf]
    by (simp add: new_events_def)
qed

lemma those_length: "those xs = Some ys \<Longrightarrow> length ys = length xs"
  by (induction xs arbitrary: ys) (auto split: option.splits)

text \<open>
  Claim C9 says that the file written for an activity with matching streams is
  one GPX document whose track segment holds one track point per sample.  The
  code does not write that: the first \<^verbatim>\<open>open\<close> writes header and footer, the
  second one appends the track points and the footer again.  The file is the
  header, the footer (which closes the segment, the track and the document), then
  one track point per sample, then the footer a second time.
\<close>

theorem gpx_file_closes_before_track_points:
  assumes "r_activity r = Inr activity" "r_open_w r" "r_streams r = Inr ds"
          "ds_latlng ds = Some latlng" "ds_time ds = Some time"
          "original_size latlng = original_size time"
          "build_trkpts fm (detect_activity_streams activity) activity ds (original_size time)
             = Some trkpts"
          "r_open_a r"
  shows "write_to_gpx fm r activity_id output fs =
           Inr (GpxSaved,
                fs(output @ ''.gpx'' \<mapsto>
                     gpx_header activity @ gpx_footer @ concat trkpts @ gpx_footer))
         \<and> length trkpts = original_size time"
  using assms those_length[of "map (trkpt_at fm (detect_activity_streams activity) activity ds)
                                 [0..<original_size time]" trkpts]
  by (simp add: write_to_gpx_def Let_def build_trkpts_def)


lemma strava_ready_example: "strava_ready example_config"
  by (simp add: strava_ready_def example_config_def truthy_def)

lemma example_env_fields:
  "e_connect (example_env rs) = None" "e_activities (example_env rs) = Inr [example_ride]"
  "e_responses (example_env rs) = rs"
  by (simp_all add: example_env_def)

lemma example_ride_new: "py_str (a_id example_ride) \<notin> synced_ids example_state"
  by (simp add: example_state_def)

lemma example_state_fields:
  "synced_ids example_state = {}" "remote_files example_state = Map.empty"
  "remote_synced example_state = None" "local_files example_state = Map.empty"
  by (simp_all add: example_state_def)

lemma example_config_folder: "nextcloud_target_folder example_config = ''/GPX/Strava''"
  by (simp add: example_config_def)

lemma remote_filename_example: "remote_filename_for example_ride = ''2024-03-01_Morning_Run-2.gpx''"
  by (simp add: remote_filename_for_def example_ride_def py_replace_def Let_def)

theorem failed_upload_example:
  "\<not> r_upload_gpx (example_responses\<lparr>r_upload_gpx := False\<rparr>)
   \<and> (\<exists>s'. sync_activities example_fmt example_config
               (example_env [example_responses\<lparr>r_upload_gpx := False\<rparr>]) example_state
             = Returned s'
          \<and> remote_files s' = Map.empty
          \<and> ''42'' \<in> synced_ids s'
          \<and> remote_synced s' = Some {''42''})"
proof -
  let ?r = "example_responses\<lparr>r_upload_gpx := False\<rparr>"
  have r: "r_activity ?r = Inr example_activity" "r_open_w ?r" "\<not> r_upload_gpx ?r"
          "r_upload_state ?r"
    by (simp_all add: example_responses_def)
  show ?thesis
    using failed_upload_is_marked_synced[OF strava_ready_example example_env_fields(1,2) example_ride_new
                example_env_fields(3) r(1,2,3), of example_fmt] r(3,4)
    by (simp add: example_state_fields example_ride_fields py_str_42)
qed

theorem size_mismatch_example:
  "ds_latlng example_streams_mismatch = Some \<lparr> original_size = 10, data = replicate 10 (103 / 2, - 1 / 4) \<rparr>
   \<and> ds_time example_streams_mismatch = Some \<lparr> original_size = 12, data = map int [0..<12] \<rparr>
   \<and> (\<exists>s'. sync_activities example_fmt example_config
               (example_env [example_responses\<lparr>r_streams := Inr example_streams_mismatch\<rparr>])
               example_state
             = Returned s'
          \<and> ''42'' \<in> synced_ids s'
          \<and> remote_synced s' = Some {''42''}
          \<and> remote_files s' =
              [''/GPX/Strava/2024-03-01_Morning_Run-2.gpx''
                 \<mapsto> gpx_header example_activity @ gpx_footer])"
proof -
  let ?r = "example_responses\<lparr>r_streams := Inr example_streams_mismatch\<rparr>"
  have r: "r_activity ?r = Inr example_activity" "r_open_w ?r"
          "r_streams ?r = Inr example_streams_mismatch" "r_upload_gpx ?r" "r_upload_state ?r"
    by (simp_all add: example_responses_def)
  have d: "ds_latlng example_streams_mismatch
             = Some \<lparr> original_size = 10, data = replicate 10 (103 / 2, - 1 / 4) \<rparr>"
          "ds_time example_streams_mismatch
             = Some \<lparr> original_size = 12, data = map int [0..<12] \<rparr>"
    by (simp_all add: example_streams_mismatch_def)
  have ne: "original_size \<lparr> original_size = 10, data = replicate 10 (103 / 2 :: real, - 1 / 4 :: real) \<rparr>
            \<noteq> original_size \<lparr> original_size = 12, data = map int [0..<12] \<rparr>"
    by simp
  have n: "local_files example_state (''temp_gpx_'' @ py_str (a_id example_ride) @ ''.gpx'') = None"
    by (simp add: example_state_fields)
  show ?thesis
    using size_mismatch_is_marked_synced[OF strava_ready_example example_env_fields(1,2) example_ride_new
                example_env_fields(3) r(1,2,3) d ne r(4) n, of example_fmt] r(5) d
    by (simp add: example_state_fields example_ride_fields py_str_42 example_config_folder
                  remote_filename_example)
qed

theorem swallowed_rate_limit_example:
  "is_rate_limit too_many_requests
   \<and> (\<exists>s'. sync_activities example_fmt example_config
               (example_env [example_responses\<lparr>r_streams := Inl too_many_requests\<rparr>])
               example_state
             = Returned s'
          \<and> attempts (new_events
               (before_loop (example_env [example_responses\<lparr>r_streams := Inl too_many_requests\<rparr>])
                  example_state) s') = [42]
          \<and> sleeps (new_events
               (before_loop (example_env [example_responses\<lparr>r_streams := Inl too_many_requests\<rparr>])
                  example_state) s') = []
          \<and> ''42'' \<in> synced_ids s')"
proof -
  let ?r = "example_responses\<lparr>r_streams := Inl too_many_requests\<rparr>"
  have r: "r_activity ?r = Inr example_activity" "r_open_w ?r"
          "r_streams ?r = Inl too_many_requests"
    by (simp_all add: example_responses_def)
  show ?thesis
    using swallowed_rate_limit_is_not_retried[OF strava_ready_example example_env_fields(1,2) example_ride_new
                example_env_fields(3) r rate_limit_too_many_requests, of example_fmt]
          rate_limit_too_many_requests
    by (simp add: example_ride_fields py_str_42)
qed

lemma build_trkpts_example:
  \<open>build_trkpts example_fmt (detect_activity_streams example_activity) example_activity
     example_streams 2 =
   Some [py_join newline
           [newline @ ''   <trkpt lat="51.5000000" lon="-0.2500000">'',
            ''    <ele>12.0</ele>'',
            ''    <time>2024-03-01T10:00:00Z</time>'',
            ''    <extensions>'',
            ''     <gpxtpx:TrackPointExtension>'',
            ''      <gpxtpx:hr>140</gpxtpx:hr>'',
            ''     </gpxtpx:TrackPointExtension>'',
            ''    </extensions>'',
            ''   </trkpt>''],
         py_join newline
           [newline @ ''   <trkpt lat="51.5000000" lon="-0.2500000">'',
            ''    <ele>12.0</ele>'',
            ''    <time>2024-03-01T10:00:05Z</time>'',
            ''    <extensions>'',
            ''     <gpxtpx:TrackPointExtension>'',
            ''      <gpxtpx:hr>140</gpxtpx:hr>'',
            ''     </gpxtpx:TrackPointExtension>'',
            ''    </extensions>'',
            ''   </trkpt>'']]\<close>
proof -
  have u: "[0..<2] = [0, 1]" by (simp add: eval_nat_numeral)
  show ?thesis
    unfolding build_trkpts_def u
    by (simp add: trkpt_at_def stream_at_def nth_opt_def extension_line_def
                  add_seconds_to_timestamp_def detect_activity_streams_def example_activity_def
                  example_streams_def example_fmt_def py_replace_def)
qed


theorem gpx_file_example:
  \<open>write_to_gpx example_fmt example_responses 42 ''temp_gpx'' Map.empty =
     Inr (GpxSaved,
          [''temp_gpx.gpx'' \<mapsto>
             gpx_header example_activity @
             py_join newline
               [''    </trkseg>'',
                ''  </trk>'',
                ''</gpx>'',
                ''   <trkpt lat="51.5000000" lon="-0.2500000">'',
                ''    <ele>12.0</ele>'',
                ''    <time>2024-03-01T10:00:00Z</time>'',
                ''    <extensions>'',
                ''     <gpxtpx:TrackPointExtension>'',
                ''      <gpxtpx:hr>140</gpxtpx:hr>'',
                ''     </gpxtpx:TrackPointExtension>'',
                ''    </extensions>'',
                ''   </trkpt>'',
                ''   <trkpt lat="51.5000000" lon="-0.2500000">'',
                ''    <ele>12.0</ele>'',
                ''    <time>2024-03-01T10:00:05Z</time>'',
                ''    <extensions>'',
                ''     <gpxtpx:TrackPointExtension>'',
                ''      <gpxtpx:hr>140</gpxtpx:hr>'',
                ''     </gpxtpx:TrackPointExtension>'',
                ''    </extensions>'',
                ''   </trkpt>    </trkseg>'',
                ''  </trk>'',
                ''</gpx>'']])\<close>
proof -
  have d: "ds_latlng example_streams
             = Some \<lparr> original_size = 2, data = [(103 / 2, - 1 / 4), (103 / 2, - 1 / 4)] \<rparr>"
          "ds_time example_streams = Some \<lparr> original_size = 2, data = [0, 5] \<rparr>"
    by (simp_all add: example_streams_def)
  have b: \<open>build_trkpts example_fmt (detect_activity_streams example_activity) example_activity
             example_streams
             (original_size \<lparr> original_size = 2, data = [0, 5 :: int] \<rparr>) = Some
             [py_join newline
           [newline @ ''   <trkpt lat="51.5000000" lon="-0.2500000">'',
            ''    <ele>12.0</ele>'',
            ''    <time>2024-03-01T10:00:00Z</time>'',
            ''    <extensions>'',
            ''     <gpxtpx:TrackPointExtension>'',
            ''      <gpxtpx:hr>140</gpxtpx:hr>'',
            ''     </gpxtpx:TrackPointExtension>'',
            ''    </extensions>'',
            ''   </trkpt>''],
         py_join newline
           [newline @ ''   <trkpt lat="51.5000000" lon="-0.2500000">'',
            ''    <ele>12.0</ele>'',
            ''    <time>2024-03-01T10:00:05Z</time>'',
            ''    <extensions>'',
            ''     <gpxtpx:TrackPointExtension>'',
            ''      <gpxtpx:hr>140</gpxtpx:hr>'',
            ''     </gpxtpx:TrackPointExtension>'',
            ''    </extensions>'',
            ''   </trkpt>'']]\<close>
    using build_trkpts_example by simp
  have e: "original_size \<lparr> original_size = 2, data = [(103 / 2 :: real, - 1 / 4 :: real), (103 / 2, - 1 / 4)] \<rparr>
           = original_size \<lparr> original_size = 2, data = [0, 5 :: int] \<rparr>"
    by simp
  show ?thesis
    using gpx_file_closes_before_track_points[OF example_responses_fields(1,2,3) d e b example_responses_fields(4),
             of 42 "''temp_gpx''" Map.empty]
    by (simp add: gpx_footer_def)
qed

subsection \<open>The file name and the handler\<close>

lemma startswith_Nil: "startswith s []"
  by (cases s) simp_all

lemma replace_scan_single:
  "replace_scan [c] [d] 0 s = map (\<lambda>x. if x = c then d else x) s"
  by (induction s) (auto simp: startswith_Nil split: list.splits)

text \<open>
  The name of the uploaded file is the date part of the start date, an
  underscore, the activity name with every space replaced by an underscore and
  every slash by a hyphen, and the extension: \<^verbatim>\<open>Morning Run/2\<close> started on
  2024-03-01 is stored as \<^verbatim>\<open>2024-03-01_Morning_Run-2.gpx\<close>.
\<close>

theorem remote_filename_sanitized:
  "remote_filename_for a =
     take 10 (a_start_date a) @ ''_''
     @ map (\<lambda>c. if c = CHR ''/'' then CHR ''-'' else if c = CHR '' '' then CHR ''_'' else c)
         (a_name a)
     @ ''.gpx''
   \<and> remote_filename_for
        \<lparr> a_name = ''Morning Run/2'', a_id = 7, a_start_date = ''2024-03-01T07:30:00Z'',
          a_type = ''Run'' \<rparr>
      = ''2024-03-01_Morning_Run-2.gpx''"
  by (auto simp: remote_filename_for_def py_replace_def replace_scan_single Let_def)

text \<open>
  An exception of the request for the activity detail reaches the handler of the
  per-activity block.  When its text contains \<^verbatim>\<open>429\<close> or \<^verbatim>\<open>Rate Limit Exceeded\<close> the
  pass sleeps 15 minutes and the same activity is tried again; otherwise the
  activity is abandoned.  In both cases nothing is uploaded, the synced set and
  the state document are unchanged, and so are both counters.
\<close>

theorem propagated_exception_is_retried_or_abandoned:
  assumes "r_activity r = Inl err_msg"
  shows "try_activity fm tf r a s =
           (if is_rate_limit err_msg
            then (Retry, asyncio_sleep (seconds SLEEP_SECONDS) (record_event (WriteGpx (a_id a)) s))
            else (Abandoned, record_event (WriteGpx (a_id a)) s))
         \<and> synced_ids (snd (try_activity fm tf r a s)) = synced_ids s
         \<and> remote_synced (snd (try_activity fm tf r a s)) = remote_synced s
         \<and> remote_files (snd (try_activity fm tf r a s)) = remote_files s
         \<and> batch_count (snd (try_activity fm tf r a s)) = batch_count s
         \<and> daily_count (snd (try_activity fm tf r a s)) = daily_count s"
  using assms
  by (simp add: try_activity_def write_to_gpx_def on_exception_def Let_def record_event_def
                asyncio_sleep_def)

theorem propagated_exception_example:
  "try_activity example_fmt ''/GPX/Strava''
     (example_responses\<lparr>r_activity := Inl too_many_requests\<rparr>) example_ride example_state =
     (Retry, asyncio_sleep (seconds SLEEP_SECONDS) (record_event (WriteGpx 42) example_state))
   \<and> try_activity example_fmt ''/GPX/Strava''
     (example_responses\<lparr>r_activity := Inl ''404, message=Not Found''\<rparr>) example_ride example_state =
     (Abandoned, record_event (WriteGpx 42) example_state)"
proof -
  have 1: "r_activity (example_responses\<lparr>r_activity := Inl too_many_requests\<rparr>) = Inl too_many_requests"
          "r_activity (example_responses\<lparr>r_activity := Inl ''404, message=Not Found''\<rparr>)
             = Inl ''404, message=Not Found''"
    by simp_all
  have 2: "\<not> is_rate_limit ''404, message=Not Found''"
    by (simp add: is_rate_limit_def)
  show ?thesis
    using propagated_exception_is_retried_or_abandoned[OF 1(1), of example_fmt "''/GPX/Strava''" example_ride example_state]
          propagated_exception_is_retried_or_abandoned[OF 1(2), of example_fmt "''/GPX/Strava''" example_ride example_state]
          rate_limit_too_many_requests 2
    by (simp add: example_ride_fields)
qed

end
